(* ===== verification/TabBar_Prelude.thy ===== *)
theory TabBar_Prelude
  imports Main "HOL-Library.Word" "HOL-Library.State_Monad" "HOL-Library.Monad_Syntax"
begin

text \<open>
  Shared vocabulary of the development: the types that name the model's
  pointers and coordinates, the collection of evaluation rules that the
  object-store theory adds to, and generic lemmas on the state monad and on
  option lists that the component proofs share.
\<close>

section \<open>Types of the model\<close>

text \<open>A C++ object pointer is an address of the object store; \<open>int\<close> in the
  source is read as \<open>int\<close> here because no value of the excerpt can overflow.\<close>

type_synonym ptr = nat
type_synonym coord = int

section \<open>Rule collections\<close>

named_theorems heap_simps "evaluation rules of the object-store operations"

section \<open>Generic lemmas\<close>

text \<open>Running the state monad's \<open>update\<close>: the library gives \<open>bind\<close>,
  \<open>get\<close> and \<open>set\<close>, from which it is built.\<close>

lemma run_state_update [heap_simps]: "run_state (State_Monad.update f) s = ((), f s)"
  by (simp add: State_Monad.update_def State_Monad.get_def State_Monad.set_def)

text \<open>\<open>those\<close> succeeds on a mapped list only where every element succeeds.\<close>

lemma those_map_Some:
  "those (map f xs) = Some ys \<Longrightarrow> list_all2 (\<lambda>x y. f x = Some y) xs ys"
  by (induction xs arbitrary: ys) (auto split: option.splits)

end
