(* ===== verification/Qt_Model.thy ===== *)
theory Qt_Model
  imports TabBar_Prelude
begin

unbundle bit_operations_syntax

text \<open>
  The toolkit primitives the tab bar calls, modelled from their documented
  behaviour (they are library code, not code of the repository): points and
  rectangles, the tab geometry kept by \<open>QTabBar\<close> and its \<open>tabAt\<close> lookup,
  mouse buttons and mouse events, the object store in which \<open>new QMenu\<close>,
  \<open>new QAction\<close>, \<open>addAction\<close>, \<open>addSeparator\<close> and \<open>setShortcut\<close> act,
  and the integer key codes of \<open>Qt::CTRL + Qt::Key_T\<close>.
  The store is threaded through the constructor in the state monad.
\<close>

section \<open>Geometry\<close>

record QPoint =
  px :: coord
  py :: coord

record QRect =
  rx :: coord
  ry :: coord
  rw :: coord
  rh :: coord

text \<open>\<open>QRect::contains(p)\<close>: the right edge of a rectangle is \<open>x + w - 1\<close>.\<close>

definition rect_contains :: "QRect \<Rightarrow> QPoint \<Rightarrow> bool" where
  "rect_contains r p \<longleftrightarrow>
     rx r \<le> px p \<and> px p < rx r + rw r \<and> ry r \<le> py p \<and> py p < ry r + rh r"

section \<open>The base tab bar\<close>

text \<open>The part of \<open>QTabBar\<close>'s state that \<open>tabAt\<close> reads: the rectangle of
  each tab, in tab order, and the index of the current tab (\<open>-1\<close> for none).\<close>

record QTabBar =
  tabRects :: "QRect list"
  currentIndex :: int

definition tabCount :: "'a QTabBar_scheme \<Rightarrow> nat" where
  "tabCount tb = length (tabRects tb)"

text \<open>\<open>QTabBar::tabAt\<close>: the current tab wins where tabs overlap; otherwise
  the first tab, in order, whose rectangle holds the point; \<open>-1\<close> if none.\<close>

fun tabAt_from :: "QRect list \<Rightarrow> QPoint \<Rightarrow> nat \<Rightarrow> int" where
  "tabAt_from [] p i = -1"
| "tabAt_from (r # rs) p i = (if rect_contains r p then int i else tabAt_from rs p (Suc i))"

definition tabAt :: "'a QTabBar_scheme \<Rightarrow> QPoint \<Rightarrow> int" where
  "tabAt tb p =
     (let rs = tabRects tb; c = currentIndex tb
      in if 0 \<le> c \<and> c < int (length rs) \<and> rect_contains (rs ! nat c) p then c
         else tabAt_from rs p 0)"

section \<open>Mouse events\<close>

datatype MouseButton = NoButton | LeftButton | RightButton | MidButton | XButton1 | XButton2

record QMouseEvent =
  button :: MouseButton
  pos :: QPoint

section \<open>Key codes\<close>

text \<open>Qt's key codes are C++ \<open>int\<close>s; a key sequence adds a modifier in the
  high bits to a key code in the low bits.\<close>

type_synonym keycode = "32 word"

definition CTRL :: keycode where "CTRL = 0x04000000"
definition Key_T :: keycode where "Key_T = 0x54"
definition KeyboardModifierMask :: keycode where "KeyboardModifierMask = 0xFE000000"

section \<open>The object store\<close>

text \<open>An object of the store is a menu (its list of action pointers, in menu
  order) or an action (its text, its shortcut, whether it is a separator); each
  object records its parent, the object that owns and deletes it.\<close>

datatype QKind =
    KMenu (menuActions: "ptr list")
  | KAction (actionText: string) (actionShortcut: "keycode option") (isSeparator: bool)

record QObj =
  objParent :: "ptr option"
  objKind :: QKind

record ObjHeap =
  objs :: "ptr \<Rightarrow> QObj option"
  nextPtr :: ptr

text \<open>Pointers at or beyond \<open>nextPtr\<close> are unallocated.\<close>

definition heap_ok :: "ObjHeap \<Rightarrow> bool" where
  "heap_ok h \<longleftrightarrow> (\<forall>p. nextPtr h \<le> p \<longrightarrow> objs h p = None)"

text \<open>Allocating an object at the first free address, and changing the
  object at an address (nothing happens at a free address).\<close>

definition alloc_obj :: "QObj \<Rightarrow> ObjHeap \<Rightarrow> ObjHeap" where
  "alloc_obj ob h = h\<lparr>objs := (objs h)(nextPtr h \<mapsto> ob), nextPtr := Suc (nextPtr h)\<rparr>"

definition update_obj :: "ptr \<Rightarrow> (QObj \<Rightarrow> QObj) \<Rightarrow> ObjHeap \<Rightarrow> ObjHeap" where
  "update_obj p f h = h\<lparr>objs := (objs h)(p := map_option f (objs h p))\<rparr>"

definition new_object :: "QObj \<Rightarrow> (ObjHeap, ptr) state" where
  "new_object ob = State (\<lambda>h. (nextPtr h, alloc_obj ob h))"

definition modify_obj :: "ptr \<Rightarrow> (QObj \<Rightarrow> QObj) \<Rightarrow> (ObjHeap, unit) state" where
  "modify_obj p f = State_Monad.update (update_obj p f)"

text \<open>\<open>new QMenu(parent)\<close> and \<open>new QAction(text, parent)\<close>.\<close>

definition new_QMenu :: "ptr \<Rightarrow> (ObjHeap, ptr) state" where
  "new_QMenu parent = new_object \<lparr>objParent = Some parent, objKind = KMenu []\<rparr>"

definition new_QAction :: "string \<Rightarrow> ptr \<Rightarrow> (ObjHeap, ptr) state" where
  "new_QAction text parent =
     new_object \<lparr>objParent = Some parent, objKind = KAction text None False\<rparr>"

fun set_shortcut_kind :: "keycode \<Rightarrow> QKind \<Rightarrow> QKind" where
  "set_shortcut_kind k (KAction t _ s) = KAction t (Some k) s"
| "set_shortcut_kind k K = K"

fun add_action_kind :: "ptr \<Rightarrow> QKind \<Rightarrow> QKind" where
  "add_action_kind a (KMenu as) = KMenu (as @ [a])"
| "add_action_kind a K = K"

text \<open>\<open>QAction::setShortcut\<close> and \<open>QWidget::addAction\<close> (appends).\<close>

definition setShortcut :: "ptr \<Rightarrow> keycode \<Rightarrow> (ObjHeap, unit) state" where
  "setShortcut a k = modify_obj a (\<lambda>ob. ob\<lparr>objKind := set_shortcut_kind k (objKind ob)\<rparr>)"

definition addAction :: "ptr \<Rightarrow> ptr \<Rightarrow> (ObjHeap, unit) state" where
  "addAction m a = modify_obj m (\<lambda>ob. ob\<lparr>objKind := add_action_kind a (objKind ob)\<rparr>)"

text \<open>\<open>QMenu::addSeparator\<close> creates a separator action owned by the menu
  and appends it.\<close>

definition addSeparator :: "ptr \<Rightarrow> (ObjHeap, ptr) state" where
  "addSeparator m = do {
     s \<leftarrow> new_object \<lparr>objParent = Some m, objKind = KAction [] None True\<rparr>;
     addAction m s;
     State_Monad.return s
   }"

text \<open>The actions a menu lists, read from the store.\<close>

definition menu_actions :: "ObjHeap \<Rightarrow> ptr \<Rightarrow> ptr list" where
  "menu_actions h m = (case objs h m of Some ob \<Rightarrow>
       (case objKind ob of KMenu as \<Rightarrow> as | _ \<Rightarrow> []) | None \<Rightarrow> [])"

text \<open>An action a user can pick in a menu: listed by it and not a separator.\<close>

definition selectable :: "ObjHeap \<Rightarrow> ptr \<Rightarrow> ptr \<Rightarrow> bool" where
  "selectable h m a \<longleftrightarrow> a \<in> set (menu_actions h m) \<and>
     (case objs h a of Some ob \<Rightarrow> (case objKind ob of KAction _ _ sep \<Rightarrow> \<not> sep | _ \<Rightarrow> False)
      | None \<Rightarrow> False)"

text \<open>\<open>QMenu::exec\<close> is modal: it returns the action the user picked, or
  null when the menu is dismissed. The user's choice is an input of the model;
  this predicate is what the toolkit guarantees of it.\<close>

definition menu_exec_ok :: "ObjHeap \<Rightarrow> ptr \<Rightarrow> ptr option \<Rightarrow> bool" where
  "menu_exec_ok h m sel \<longleftrightarrow> (case sel of None \<Rightarrow> True | Some a \<Rightarrow> selectable h m a)"

section \<open>Lemmas: tab lookup\<close>

lemma tabAt_from_range:
  "-1 \<le> tabAt_from rs p i \<and> tabAt_from rs p i < int (i + length rs)"
proof (induction rs arbitrary: i)
  case (Cons r rs)
  from Cons.IH [of "Suc i"] show ?case by auto
qed simp

lemma tabAt_from_hit:
  "0 \<le> tabAt_from rs p i \<Longrightarrow>
     int i \<le> tabAt_from rs p i \<and> rect_contains (rs ! (nat (tabAt_from rs p i) - i)) p"
proof (induction rs arbitrary: i)
  case Nil
  then show ?case by simp
next
  case (Cons r rs)
  show ?case
  proof (cases "rect_contains r p")
    case True
    then show ?thesis by simp
  next
    case False
    with Cons.prems have "0 \<le> tabAt_from rs p (Suc i)" by simp
    with Cons.IH [of "Suc i"] False show ?thesis
      by (auto simp: nth_Cons' nat_diff_distrib)
  qed
qed

text \<open>The contract of \<open>tabAt\<close> that the tab bar relies on: \<open>-1\<close> or the
  index of an existing tab.\<close>

lemma tabAt_range: "-1 \<le> tabAt tb p \<and> tabAt tb p < int (tabCount tb)"
  using tabAt_from_range [of "tabRects tb" p 0]
  by (auto simp: tabAt_def tabCount_def Let_def)

text \<open>A non-negative result names a tab whose rectangle holds the point.\<close>

lemma tabAt_hit:
  "0 \<le> tabAt tb p \<Longrightarrow> rect_contains (tabRects tb ! nat (tabAt tb p)) p"
  using tabAt_from_hit [of "tabRects tb" p 0]
  by (auto simp: tabAt_def Let_def split: if_splits)

section \<open>Lemmas: the object store\<close>

lemma run_state_new_object [heap_simps]:
  "run_state (new_object ob) h = (nextPtr h, alloc_obj ob h)"
  by (simp add: new_object_def)

lemma run_state_modify_obj [heap_simps]:
  "run_state (modify_obj p f) h = ((), update_obj p f h)"
  by (simp add: modify_obj_def run_state_update)

lemma nextPtr_alloc_obj [heap_simps]: "nextPtr (alloc_obj ob h) = Suc (nextPtr h)"
  by (simp add: alloc_obj_def)

lemma objs_alloc_obj [heap_simps]:
  "objs (alloc_obj ob h) q = (if q = nextPtr h then Some ob else objs h q)"
  by (simp add: alloc_obj_def)

lemma nextPtr_update_obj [heap_simps]: "nextPtr (update_obj p f h) = nextPtr h"
  by (simp add: update_obj_def)

lemma objs_update_obj [heap_simps]:
  "objs (update_obj p f h) q = (if q = p then map_option f (objs h q) else objs h q)"
  by (simp add: update_obj_def)

lemmas qt_heap_defs [heap_simps] =
  new_QMenu_def new_QAction_def setShortcut_def addAction_def addSeparator_def

section \<open>Lemmas: key codes\<close>

text \<open>A key sequence \<open>modifier + key\<close> with the key below the modifier bits
  decodes back into its parts: adding equals OR-ing when the bits do not
  overlap, and the modifier mask separates them.\<close>

lemma CTRL_Key_T_modifiers: "(CTRL + Key_T) AND KeyboardModifierMask = CTRL"
  by (simp add: CTRL_def Key_T_def KeyboardModifierMask_def)

lemma CTRL_Key_T_key: "(CTRL + Key_T) AND NOT KeyboardModifierMask = Key_T"
  by (simp add: CTRL_def Key_T_def KeyboardModifierMask_def)

end
