(* ===== verification/TabBar_Ctor.thy ===== *)
theory TabBar_Ctor
  imports Qt_Model StyleSheet
begin

unbundle bit_operations_syntax

text \<open>
  The tab bar object and its constructor (\<open>WorkAreaTabBar::WorkAreaTabBar\<close>).
  The C++ class derives from \<open>QTabBar\<close>; its record extends the
  \<open>QTabBar\<close> record by the members the constructor sets: the style sheet,
  the context menu and the seven action pointers. The constructor allocates
  the menu and the actions in the object store, in the source's order, and
  fills the menu. The lemmas compute the store it leaves, show that it
  establishes the tab bar's well-formedness invariant (distinct, fresh,
  correctly labelled and owned objects; the menu lists exactly the documented
  entries), and that it leaves every earlier object alone.
\<close>

section \<open>The tab bar object\<close>

record WorkAreaTabBar = QTabBar +
  styleSheet :: string
  menu :: ptr
  newShellAction :: ptr
  reloadShellAction :: ptr
  duplicateShellAction :: ptr
  pinShellAction :: ptr
  closeShellAction :: ptr
  closeOtherShellsAction :: ptr
  closeShellsToTheRightAction :: ptr

section \<open>The constructor\<close>

text \<open>\<open>self\<close> is the address of the tab bar being constructed, the parent of
  the menu. The base constructor \<open>QTabBar()\<close> leaves no tabs and no current
  tab. \<open>addSeparator\<close>'s result is dropped, as in the source.\<close>

definition WorkAreaTabBar_ctor :: "ptr \<Rightarrow> (ObjHeap, WorkAreaTabBar) state" where
  "WorkAreaTabBar_ctor self = do {
     m \<leftarrow> new_QMenu self;
     newA \<leftarrow> new_QAction ''&New Shell'' m;
     setShortcut newA (CTRL + Key_T);
     reloadA \<leftarrow> new_QAction ''&Reload'' m;
     duplicateA \<leftarrow> new_QAction ''&Duplicate'' m;
     pinA \<leftarrow> new_QAction ''&Pin Shell'' m;
     closeA \<leftarrow> new_QAction ''&Close Shell'' m;
     closeOthersA \<leftarrow> new_QAction ''Close &Other Shells'' m;
     closeRightA \<leftarrow> new_QAction ''Close Shells to the R&ight'' m;
     addAction m newA;
     _ \<leftarrow> addSeparator m;
     addAction m reloadA;
     addAction m duplicateA;
     _ \<leftarrow> addSeparator m;
     addAction m closeA;
     addAction m closeOthersA;
     addAction m closeRightA;
     State_Monad.return
       \<lparr>tabRects = [], currentIndex = -1, styleSheet = buildStyleSheet, menu = m,
        newShellAction = newA, reloadShellAction = reloadA,
        duplicateShellAction = duplicateA, pinShellAction = pinA,
        closeShellAction = closeA, closeOtherShellsAction = closeOthersA,
        closeShellsToTheRightAction = closeRightA\<rparr>
   }"

section \<open>Well-formedness of a tab bar\<close>

text \<open>The seven actions the constructor creates, in declaration order.\<close>

definition action_ptrs :: "WorkAreaTabBar \<Rightarrow> ptr list" where
  "action_ptrs tb =
     [newShellAction tb, reloadShellAction tb, duplicateShellAction tb, pinShellAction tb,
      closeShellAction tb, closeOtherShellsAction tb, closeShellsToTheRightAction tb]"

definition is_menu :: "ObjHeap \<Rightarrow> ptr \<Rightarrow> bool" where
  "is_menu h m = (case objs h m of
     Some ob \<Rightarrow> (case objKind ob of KMenu _ \<Rightarrow> True | _ \<Rightarrow> False) | None \<Rightarrow> False)"

text \<open>An ordinary (not separator) action owned by menu \<open>m\<close>.\<close>

definition action_of :: "ObjHeap \<Rightarrow> ptr \<Rightarrow> ptr \<Rightarrow> bool" where
  "action_of h m a = (case objs h a of
     Some ob \<Rightarrow> objParent ob = Some m \<and>
       (case objKind ob of KAction _ _ sep \<Rightarrow> \<not> sep | KMenu _ \<Rightarrow> False)
   | None \<Rightarrow> False)"

definition is_separator :: "ObjHeap \<Rightarrow> ptr \<Rightarrow> bool" where
  "is_separator h a = (case objs h a of
     Some ob \<Rightarrow> (case objKind ob of KAction _ _ sep \<Rightarrow> sep | KMenu _ \<Rightarrow> False)
   | None \<Rightarrow> False)"

text \<open>The invariant of a constructed tab bar: a sound store; the menu and
  the seven actions are distinct objects; the menu is a menu; each action is
  an ordinary action owned by the menu; the menu lists each entry once, and
  every entry is one of the seven actions or a separator.\<close>

definition tabbar_wf :: "ObjHeap \<Rightarrow> WorkAreaTabBar \<Rightarrow> bool" where
  "tabbar_wf h tb \<longleftrightarrow>
     heap_ok h \<and> distinct (menu tb # action_ptrs tb) \<and> is_menu h (menu tb) \<and>
     list_all (action_of h (menu tb)) (action_ptrs tb) \<and>
     distinct (menu_actions h (menu tb)) \<and>
     list_all (\<lambda>a. a \<in> set (action_ptrs tb) \<or> is_separator h a) (menu_actions h (menu tb))"

text \<open>Qt deletes an object with its parent. An object is owned by \<open>s\<close>
  when its parent, or its parent's parent, is \<open>s\<close>: deleting the tab bar
  then deletes it.\<close>

definition owned_by :: "ObjHeap \<Rightarrow> ptr \<Rightarrow> ptr \<Rightarrow> bool" where
  "owned_by h s p = (case objs h p of
     Some ob \<Rightarrow> (case objParent ob of
        Some q \<Rightarrow> q = s \<or> (case objs h q of Some oq \<Rightarrow> objParent oq = Some s | None \<Rightarrow> False)
      | None \<Rightarrow> False)
   | None \<Rightarrow> False)"

section \<open>Labels and mnemonics\<close>

text \<open>The text of an action, and Qt's mnemonic of a label: the character
  after the first \<open>&\<close> that is not part of an escaped \<open>&&\<close>.\<close>

definition action_text :: "ObjHeap \<Rightarrow> ptr \<Rightarrow> string" where
  "action_text h a = (case objs h a of
     Some ob \<Rightarrow> (case objKind ob of KAction t _ _ \<Rightarrow> t | KMenu _ \<Rightarrow> [])
   | None \<Rightarrow> [])"

definition action_shortcut :: "ObjHeap \<Rightarrow> ptr \<Rightarrow> keycode option" where
  "action_shortcut h a = (case objs h a of
     Some ob \<Rightarrow> (case objKind ob of KAction _ k _ \<Rightarrow> k | KMenu _ \<Rightarrow> None)
   | None \<Rightarrow> None)"

fun mnemonic :: "string \<Rightarrow> char option" where
  "mnemonic [] = None"
| "mnemonic [c] = None"
| "mnemonic (c # d # cs) =
     (if c = CHR ''&'' then (if d = CHR ''&'' then mnemonic cs else Some d)
      else mnemonic (d # cs))"

text \<open>Mnemonics match without regard to case.\<close>

definition ascii_upper :: "char \<Rightarrow> char" where
  "ascii_upper c = (if (97::nat) \<le> of_char c \<and> of_char c \<le> (122::nat) then char_of (of_char c - (32::nat)) else c)"

text \<open>The entries a user can pick, in menu order.\<close>

definition selectable_entries :: "ObjHeap \<Rightarrow> ptr \<Rightarrow> ptr list" where
  "selectable_entries h m = filter (selectable h m) (menu_actions h m)"

section \<open>The store the constructor leaves\<close>

text \<open>With \<open>n\<close> the first free address, the menu is at \<open>n\<close>, the seven
  actions at \<open>n + 1\<close> to \<open>n + 7\<close> in declaration order, the two separators at
  \<open>n + 8\<close> and \<open>n + 9\<close>.\<close>

lemma WorkAreaTabBar_ctor_bar:
  "fst (run_state (WorkAreaTabBar_ctor self) h) =
     \<lparr>tabRects = [], currentIndex = -1, styleSheet = buildStyleSheet, menu = nextPtr h,
      newShellAction = nextPtr h + 1, reloadShellAction = nextPtr h + 2,
      duplicateShellAction = nextPtr h + 3, pinShellAction = nextPtr h + 4,
      closeShellAction = nextPtr h + 5, closeOtherShellsAction = nextPtr h + 6,
      closeShellsToTheRightAction = nextPtr h + 7\<rparr>"
  by (simp add: WorkAreaTabBar_ctor_def heap_simps)

lemma WorkAreaTabBar_ctor_nextPtr:
  "nextPtr (snd (run_state (WorkAreaTabBar_ctor self) h)) = nextPtr h + 10"
  by (simp add: WorkAreaTabBar_ctor_def heap_simps)

lemma WorkAreaTabBar_ctor_objs:
  "objs (snd (run_state (WorkAreaTabBar_ctor self) h)) = (let n = nextPtr h; m = Some n in
     (objs h)(n \<mapsto> \<lparr>objParent = Some self,
                   objKind = KMenu [n + 1, n + 8, n + 2, n + 3, n + 9, n + 5, n + 6, n + 7]\<rparr>,
              n + 1 \<mapsto> \<lparr>objParent = m, objKind = KAction ''&New Shell'' (Some (CTRL + Key_T)) False\<rparr>,
              n + 2 \<mapsto> \<lparr>objParent = m, objKind = KAction ''&Reload'' None False\<rparr>,
              n + 3 \<mapsto> \<lparr>objParent = m, objKind = KAction ''&Duplicate'' None False\<rparr>,
              n + 4 \<mapsto> \<lparr>objParent = m, objKind = KAction ''&Pin Shell'' None False\<rparr>,
              n + 5 \<mapsto> \<lparr>objParent = m, objKind = KAction ''&Close Shell'' None False\<rparr>,
              n + 6 \<mapsto> \<lparr>objParent = m, objKind = KAction ''Close &Other Shells'' None False\<rparr>,
              n + 7 \<mapsto> \<lparr>objParent = m, objKind = KAction ''Close Shells to the R&ight'' None False\<rparr>,
              n + 8 \<mapsto> \<lparr>objParent = m, objKind = KAction [] None True\<rparr>,
              n + 9 \<mapsto> \<lparr>objParent = m, objKind = KAction [] None True\<rparr>))"
  by (rule ext) (simp add: WorkAreaTabBar_ctor_def heap_simps Let_def)

text \<open>Facts about a constructed tab bar are read off the closed forms.\<close>

lemma ctor_case:
  "(case run_state (WorkAreaTabBar_ctor self) h of (tb, h') \<Rightarrow> P tb h') =
     P (fst (run_state (WorkAreaTabBar_ctor self) h)) (snd (run_state (WorkAreaTabBar_ctor self) h))"
  by (simp split: prod.split)

lemmas ctor_simps =
  ctor_case WorkAreaTabBar_ctor_bar WorkAreaTabBar_ctor_objs WorkAreaTabBar_ctor_nextPtr

lemma char_of_73: "char_of (73::nat) = CHR ''I''"
  by code_simp

text \<open>What a session of the tab bar starts from: a well-formed tab bar whose
  menu does not list the Pin action.\<close>

lemma WorkAreaTabBar_ctor_start:
  "heap_ok h \<Longrightarrow> run_state (WorkAreaTabBar_ctor self) h = (tb, h') \<Longrightarrow>
     tabbar_wf h' tb \<and> pinShellAction tb \<notin> set (menu_actions h' (menu tb))"
proof -
  assume hk: "heap_ok h" and r: "run_state (WorkAreaTabBar_ctor self) h = (tb, h')"
  from r have "tb = fst (run_state (WorkAreaTabBar_ctor self) h)"
    and "h' = snd (run_state (WorkAreaTabBar_ctor self) h)" by simp_all
  with hk show ?thesis
    by (simp add: ctor_simps tabbar_wf_def menu_actions_def is_separator_def Let_def
        action_ptrs_def is_menu_def action_of_def heap_ok_def)
qed

section \<open>Properties of the constructor\<close>

text \<open>C12: the context menu the constructor builds lists New Shell, a
  separator, Reload, Duplicate, a separator, Close Shell, Close Other Shells
  and Close Shells to the Right, in this order.\<close>

theorem WorkAreaTabBar_ctor_menu_layout:
  "case run_state (WorkAreaTabBar_ctor self) h of (tb, h') \<Rightarrow>
     map (is_separator h') (menu_actions h' (menu tb)) =
       [False, True, False, False, True, False, False, False] \<and>
     filter (Not \<circ> is_separator h') (menu_actions h' (menu tb)) =
       [newShellAction tb, reloadShellAction tb, duplicateShellAction tb,
        closeShellAction tb, closeOtherShellsAction tb, closeShellsToTheRightAction tb]"
  by (simp add: ctor_simps menu_actions_def is_separator_def Let_def)

text \<open>C13: from a sound store, the constructor yields a well-formed tab bar:
  distinct menu and actions, each action an ordinary action owned by the
  menu, and a menu listing only those actions and separators, each once.\<close>

theorem WorkAreaTabBar_ctor_wf:
  "heap_ok h \<Longrightarrow> case run_state (WorkAreaTabBar_ctor self) h of (tb, h') \<Rightarrow> tabbar_wf h' tb"
  by (simp add: ctor_simps tabbar_wf_def menu_actions_def is_separator_def Let_def
      action_ptrs_def is_menu_def action_of_def heap_ok_def)

theorem WorkAreaTabBar_ctor_wf_witness:
  "heap_ok \<lparr>objs = Map.empty, nextPtr = 1\<rparr> \<and>
   (case run_state (WorkAreaTabBar_ctor 0) \<lparr>objs = Map.empty, nextPtr = 1\<rparr> of
      (tb, h') \<Rightarrow> tabbar_wf h' tb)"
proof -
  have h: "heap_ok \<lparr>objs = Map.empty, nextPtr = 1\<rparr>" by (simp add: heap_ok_def)
  show ?thesis by (rule conjI [OF h WorkAreaTabBar_ctor_wf [OF h]])
qed

text \<open>C14: the Pin Shell action is created and owned by the menu, but the
  constructor never adds it to the menu.\<close>

theorem WorkAreaTabBar_ctor_pin_unlisted:
  "case run_state (WorkAreaTabBar_ctor self) h of (tb, h') \<Rightarrow>
     action_of h' (menu tb) (pinShellAction tb) \<and> pinShellAction tb \<notin> set (menu_actions h' (menu tb))"
  by (simp add: ctor_simps menu_actions_def action_of_def Let_def)

text \<open>C15: the constructor allocates exactly ten objects (the menu, seven
  actions, two separators) and leaves every object allocated before it alone.\<close>

theorem WorkAreaTabBar_ctor_frame:
  "p < nextPtr h \<Longrightarrow> case run_state (WorkAreaTabBar_ctor self) h of (tb, h') \<Rightarrow>
     objs h' p = objs h p \<and> nextPtr h' = nextPtr h + 10"
  by (simp add: ctor_simps Let_def)

theorem WorkAreaTabBar_ctor_frame_witness:
  "(0::ptr) < nextPtr \<lparr>objs = [0 \<mapsto> \<lparr>objParent = None, objKind = KMenu []\<rparr>], nextPtr = 1\<rparr> \<and>
   (case run_state (WorkAreaTabBar_ctor 0)
          \<lparr>objs = [0 \<mapsto> \<lparr>objParent = None, objKind = KMenu []\<rparr>], nextPtr = 1\<rparr> of (tb, h') \<Rightarrow>
      objs h' 0 = Some \<lparr>objParent = None, objKind = KMenu []\<rparr> \<and> nextPtr h' = 11)"
proof -
  have p: "(0::ptr) < nextPtr \<lparr>objs = [0 \<mapsto> \<lparr>objParent = None, objKind = KMenu []\<rparr>], nextPtr = 1\<rparr>"
    by simp
  show ?thesis using WorkAreaTabBar_ctor_frame [OF p, of 0] p by (simp split: prod.splits)
qed

text \<open>C17: every entry a user can pick in the menu has a mnemonic, and the
  mnemonics (N, R, D, C, O, I) differ without regard to case, so each
  keyboard accelerator selects one entry.\<close>

theorem WorkAreaTabBar_ctor_mnemonics:
  "case run_state (WorkAreaTabBar_ctor self) h of (tb, h') \<Rightarrow>
     map (\<lambda>a. map_option ascii_upper (mnemonic (action_text h' a))) (selectable_entries h' (menu tb)) =
       map Some ''NRDCOI'' \<and>
     distinct (map (\<lambda>a. map_option ascii_upper (mnemonic (action_text h' a)))
       (selectable_entries h' (menu tb)))"
  by (simp add: ctor_simps selectable_entries_def selectable_def menu_actions_def
      action_text_def Let_def ascii_upper_def char_of_73)

text \<open>C18: only New Shell has a shortcut, \<open>Qt::CTRL + Qt::Key_T\<close>, and the
  sum decodes back into the Control modifier and the key T.\<close>

theorem WorkAreaTabBar_ctor_shortcut:
  "case run_state (WorkAreaTabBar_ctor self) h of (tb, h') \<Rightarrow>
     map (action_shortcut h') (action_ptrs tb) =
       [Some (CTRL + Key_T), None, None, None, None, None, None] \<and>
     (CTRL + Key_T) AND KeyboardModifierMask = CTRL \<and>
     (CTRL + Key_T) AND NOT KeyboardModifierMask = Key_T"
  by (simp add: ctor_simps action_shortcut_def action_ptrs_def Let_def
      CTRL_Key_T_modifiers CTRL_Key_T_key)

text \<open>C16: every object the constructor allocates is owned, directly or
  through the menu, by the tab bar, so deleting the tab bar deletes them all.\<close>

theorem WorkAreaTabBar_ctor_owned:
  "case run_state (WorkAreaTabBar_ctor self) h of (tb, h') \<Rightarrow>
     list_all (owned_by h' self) [nextPtr h..<nextPtr h']"
  by (simp add: ctor_simps owned_by_def Let_def upt_rec)

end
