(* ===== verification/TabBar_Events.thy ===== *)
theory TabBar_Events
  imports TabBar_Ctor
begin

text \<open>
  The tab bar's event handling: the signals it emits, the dispatch of a
  context-menu action to a signal (\<open>emitSignalForContextMenuAction\<close>) and
  the mouse-release handler (\<open>mouseReleaseEvent\<close>). A handler run yields
  the list of its observable effects in order: showing the context menu,
  emitting a signal, passing the event on to \<open>QTabBar::mouseReleaseEvent\<close>.
  The menu's answer (the action the user picks, or none) is an input.

  An abstract specification names the seven shell commands and the signal
  each one requests; the dispatch refines it when the seven action pointers
  differ. The lemmas give the handler's result on every branch of the source
  and show that every emitted signal names the tab under the cursor.
\<close>

section \<open>Signals and effects\<close>

datatype signal =
    tabCloseRequested int
  | newTabRequested int
  | reloadTabRequested int
  | duplicateTabRequested int
  | pinTabRequested int
  | closeOtherTabsRequested int
  | closeTabsToTheRightRequested int

fun signal_index :: "signal \<Rightarrow> int" where
  "signal_index (tabCloseRequested i) = i"
| "signal_index (newTabRequested i) = i"
| "signal_index (reloadTabRequested i) = i"
| "signal_index (duplicateTabRequested i) = i"
| "signal_index (pinTabRequested i) = i"
| "signal_index (closeOtherTabsRequested i) = i"
| "signal_index (closeTabsToTheRightRequested i) = i"

datatype effect =
    ExecMenu ptr
  | Emit signal
  | BaseMouseRelease QMouseEvent

fun emitted :: "effect list \<Rightarrow> signal list" where
  "emitted [] = []"
| "emitted (Emit s # es) = s # emitted es"
| "emitted (_ # es) = emitted es"

section \<open>Dispatch of a menu action\<close>

text \<open>Pointer comparisons in the source's order; an unknown action emits
  nothing.\<close>

definition emitSignalForContextMenuAction :: "WorkAreaTabBar \<Rightarrow> int \<Rightarrow> ptr \<Rightarrow> signal option" where
  "emitSignalForContextMenuAction tb tabIndex action =
     (if action = newShellAction tb then Some (newTabRequested tabIndex)
      else if action = reloadShellAction tb then Some (reloadTabRequested tabIndex)
      else if action = duplicateShellAction tb then Some (duplicateTabRequested tabIndex)
      else if action = pinShellAction tb then Some (pinTabRequested tabIndex)
      else if action = closeShellAction tb then Some (tabCloseRequested tabIndex)
      else if action = closeOtherShellsAction tb then Some (closeOtherTabsRequested tabIndex)
      else if action = closeShellsToTheRightAction tb then Some (closeTabsToTheRightRequested tabIndex)
      else None)"

section \<open>The mouse-release handler\<close>

text \<open>\<open>selected\<close> is what \<open>_menu->exec()\<close> returns when the menu is shown.
  The early \<open>return\<close>s skip the call of the base class's handler.\<close>

definition mouseReleaseEvent :: "WorkAreaTabBar \<Rightarrow> ptr option \<Rightarrow> QMouseEvent \<Rightarrow> effect list" where
  "mouseReleaseEvent tb selected event =
     (if button event = MidButton then
        (let tabIndex = tabAt tb (pos event)
         in if tabIndex < 0 then []
            else [Emit (tabCloseRequested tabIndex), BaseMouseRelease event])
      else if button event = RightButton then
        (let tabIndex = tabAt tb (pos event)
         in if tabIndex < 0 then []
            else ExecMenu (menu tb) #
              (case selected of
                 None \<Rightarrow> []
               | Some action \<Rightarrow>
                   (case emitSignalForContextMenuAction tb tabIndex action of
                      None \<Rightarrow> []
                    | Some s \<Rightarrow> [Emit s]) @ [BaseMouseRelease event]))
      else [BaseMouseRelease event])"

section \<open>The abstract specification of the context menu\<close>

text \<open>The seven shell commands, the action that stands for each, and the
  signal each requests for a tab.\<close>

datatype shell_command =
    NewShell | ReloadShell | DuplicateShell | PinShell | CloseShell
  | CloseOtherShells | CloseShellsToTheRight

fun command_action :: "WorkAreaTabBar \<Rightarrow> shell_command \<Rightarrow> ptr" where
  "command_action tb NewShell = newShellAction tb"
| "command_action tb ReloadShell = reloadShellAction tb"
| "command_action tb DuplicateShell = duplicateShellAction tb"
| "command_action tb PinShell = pinShellAction tb"
| "command_action tb CloseShell = closeShellAction tb"
| "command_action tb CloseOtherShells = closeOtherShellsAction tb"
| "command_action tb CloseShellsToTheRight = closeShellsToTheRightAction tb"

fun command_signal :: "shell_command \<Rightarrow> int \<Rightarrow> signal" where
  "command_signal NewShell i = newTabRequested i"
| "command_signal ReloadShell i = reloadTabRequested i"
| "command_signal DuplicateShell i = duplicateTabRequested i"
| "command_signal PinShell i = pinTabRequested i"
| "command_signal CloseShell i = tabCloseRequested i"
| "command_signal CloseOtherShells i = closeOtherTabsRequested i"
| "command_signal CloseShellsToTheRight i = closeTabsToTheRightRequested i"

text \<open>The commands in the order the dispatch tests their actions.\<close>

definition shell_commands :: "shell_command list" where
  "shell_commands =
     [NewShell, ReloadShell, DuplicateShell, PinShell, CloseShell, CloseOtherShells,
      CloseShellsToTheRight]"

section \<open>Sample inputs\<close>

text \<open>A tab bar with two tabs whose rectangles overlap by two pixels (where
  \<open>tabAt\<close> prefers the current tab), the first one current, and its menu and actions at
  addresses 11 to 18; and a click of a button at a horizontal position.\<close>

abbreviation demo_bar :: WorkAreaTabBar where
  "demo_bar \<equiv>
     \<lparr>tabRects = [\<lparr>rx = 0, ry = 0, rw = 100, rh = 20\<rparr>, \<lparr>rx = 98, ry = 0, rw = 100, rh = 20\<rparr>],
      currentIndex = 0, styleSheet = [], menu = 11, newShellAction = 12, reloadShellAction = 13,
      duplicateShellAction = 14, pinShellAction = 15, closeShellAction = 16,
      closeOtherShellsAction = 17, closeShellsToTheRightAction = 18\<rparr>"

abbreviation demo_click :: "MouseButton \<Rightarrow> coord \<Rightarrow> QMouseEvent" where
  "demo_click b x \<equiv> \<lparr>button = b, pos = \<lparr>px = x, py = 5\<rparr>\<rparr>"

section \<open>Lemmas of the dispatch\<close>

lemma emitSignal_command:
  "distinct (action_ptrs tb) \<Longrightarrow>
     emitSignalForContextMenuAction tb i (command_action tb c) = Some (command_signal c i)"
  by (cases c) (auto simp: emitSignalForContextMenuAction_def action_ptrs_def)

lemma emitSignal_unknown:
  "a \<notin> set (action_ptrs tb) \<Longrightarrow> emitSignalForContextMenuAction tb i a = None"
  by (simp add: emitSignalForContextMenuAction_def action_ptrs_def)

lemma emitSignal_Some:
  "emitSignalForContextMenuAction tb i a = Some s \<Longrightarrow>
     \<exists>c. a = command_action tb c \<and> s = command_signal c i"
  by (auto simp: emitSignalForContextMenuAction_def split: if_splits
      intro: command_action.simps[symmetric])

lemma emitSignal_index:
  "emitSignalForContextMenuAction tb i a = Some s \<Longrightarrow> signal_index s = i"
  by (auto simp: emitSignalForContextMenuAction_def split: if_splits)

lemma command_action_in_action_ptrs: "command_action tb c \<in> set (action_ptrs tb)"
  by (cases c) (simp_all add: action_ptrs_def)

lemma emitted_append [simp]: "emitted (xs @ ys) = emitted xs @ emitted ys"
  by (induction xs rule: emitted.induct) auto

text \<open>The signals one handler run emits, by branch.\<close>

lemma mouseRelease_emitted:
  "emitted (mouseReleaseEvent tb sel ev) =
     (if tabAt tb (pos ev) < 0 then []
      else if button ev = MidButton then [tabCloseRequested (tabAt tb (pos ev))]
      else if button ev = RightButton then
        (case sel of None \<Rightarrow> []
         | Some a \<Rightarrow> (case emitSignalForContextMenuAction tb (tabAt tb (pos ev)) a of
             None \<Rightarrow> [] | Some s \<Rightarrow> [s]))
      else [])"
  by (auto simp: mouseReleaseEvent_def Let_def split: option.split)

lemma mouseRelease_emitted_index:
  "s \<in> set (emitted (mouseReleaseEvent tb sel ev)) \<Longrightarrow>
     0 \<le> tabAt tb (pos ev) \<and> signal_index s = tabAt tb (pos ev)"
proof -
  assume s: "s \<in> set (emitted (mouseReleaseEvent tb sel ev))"
  then have nn: "0 \<le> tabAt tb (pos ev)"
    by (simp add: mouseRelease_emitted split: if_splits)
  have "signal_index s = tabAt tb (pos ev)"
  proof (cases "button ev = RightButton \<and> button ev \<noteq> MidButton")
    case True
    with s nn obtain a where
      "emitSignalForContextMenuAction tb (tabAt tb (pos ev)) a = Some s"
      by (auto simp: mouseRelease_emitted split: option.splits)
    then show ?thesis by (rule emitSignal_index)
  next
    case False
    with s nn show ?thesis by (auto simp: mouseRelease_emitted split: if_splits)
  qed
  with nn show ?thesis by simp
qed

lemma demo_tabAt:
  "tabAt demo_bar \<lparr>px = 150, py = 5\<rparr> = 1" "tabAt demo_bar \<lparr>px = 99, py = 5\<rparr> = 0"
  "tabAt demo_bar \<lparr>px = 300, py = 5\<rparr> = -1"
  by (simp_all add: tabAt_def rect_contains_def)

lemma demo_distinct: "distinct (action_ptrs demo_bar)"
  by (simp add: action_ptrs_def)

section \<open>Properties of the handler\<close>

text \<open>C1: a middle-button release over a tab emits \<open>tabCloseRequested\<close> for
  that tab and then passes the event on to \<open>QTabBar\<close>; no menu is shown.\<close>

theorem mouseRelease_mid_on_tab:
  "button ev = MidButton \<Longrightarrow> 0 \<le> tabAt tb (pos ev) \<Longrightarrow>
     mouseReleaseEvent tb sel ev = [Emit (tabCloseRequested (tabAt tb (pos ev))), BaseMouseRelease ev]"
  by (simp add: mouseReleaseEvent_def Let_def)

theorem mouseRelease_mid_on_tab_witness:
  "button (demo_click MidButton 150) = MidButton \<and> 0 \<le> tabAt demo_bar (pos (demo_click MidButton 150)) \<and>
   mouseReleaseEvent demo_bar None (demo_click MidButton 150) =
     [Emit (tabCloseRequested 1), BaseMouseRelease (demo_click MidButton 150)]"
  using mouseRelease_mid_on_tab [of "demo_click MidButton 150" demo_bar None] demo_tabAt by simp

text \<open>C2: a right-button release over a tab shows the context menu; when the
  user picks the action of a shell command, the signal of that command is
  emitted for the tab under the cursor, then the event goes on to
  \<open>QTabBar\<close>. This holds whenever the seven action pointers differ.\<close>

theorem mouseRelease_right_command:
  "button ev = RightButton \<Longrightarrow> 0 \<le> tabAt tb (pos ev) \<Longrightarrow> distinct (action_ptrs tb) \<Longrightarrow>
     mouseReleaseEvent tb (Some (command_action tb c)) ev =
       [ExecMenu (menu tb), Emit (command_signal c (tabAt tb (pos ev))), BaseMouseRelease ev]"
  by (simp add: mouseReleaseEvent_def Let_def emitSignal_command)

theorem mouseRelease_right_command_witness:
  "button (demo_click RightButton 99) = RightButton \<and>
   0 \<le> tabAt demo_bar (pos (demo_click RightButton 99)) \<and> distinct (action_ptrs demo_bar) \<and>
   mouseReleaseEvent demo_bar (Some (command_action demo_bar CloseOtherShells)) (demo_click RightButton 99) =
     [ExecMenu 11, Emit (closeOtherTabsRequested 0), BaseMouseRelease (demo_click RightButton 99)]"
  using mouseRelease_right_command [of "demo_click RightButton 99" demo_bar CloseOtherShells]
    demo_tabAt demo_distinct by simp

text \<open>C3: when the user picks an action the tab bar does not know, no signal
  is emitted; the menu was shown and the event goes on to \<open>QTabBar\<close>.\<close>

theorem mouseRelease_right_unknown:
  "button ev = RightButton \<Longrightarrow> 0 \<le> tabAt tb (pos ev) \<Longrightarrow> a \<notin> set (action_ptrs tb) \<Longrightarrow>
     mouseReleaseEvent tb (Some a) ev = [ExecMenu (menu tb), BaseMouseRelease ev]"
  by (simp add: mouseReleaseEvent_def Let_def emitSignal_unknown)

theorem mouseRelease_right_unknown_witness:
  "button (demo_click RightButton 150) = RightButton \<and>
   0 \<le> tabAt demo_bar (pos (demo_click RightButton 150)) \<and> (9::ptr) \<notin> set (action_ptrs demo_bar) \<and>
   mouseReleaseEvent demo_bar (Some 9) (demo_click RightButton 150) =
     [ExecMenu 11, BaseMouseRelease (demo_click RightButton 150)]"
  using mouseRelease_right_unknown [of "demo_click RightButton 150" demo_bar 9] demo_tabAt
  by (simp add: action_ptrs_def)

text \<open>C4: a middle- or right-button release outside every tab does
  nothing: no signal, no menu, and the event is not passed on.\<close>

theorem mouseRelease_miss:
  "button ev = MidButton \<or> button ev = RightButton \<Longrightarrow> tabAt tb (pos ev) < 0 \<Longrightarrow>
     mouseReleaseEvent tb sel ev = []"
  by (auto simp: mouseReleaseEvent_def Let_def)

theorem mouseRelease_miss_witness:
  "(button (demo_click RightButton 300) = MidButton \<or> button (demo_click RightButton 300) = RightButton) \<and>
   tabAt demo_bar (pos (demo_click RightButton 300)) < 0 \<and>
   mouseReleaseEvent demo_bar (Some 13) (demo_click RightButton 300) = []"
  using mouseRelease_miss [of "demo_click RightButton 300" demo_bar "Some 13"] demo_tabAt by simp

text \<open>C5: every signal a release emits carries the index of the tab under
  the cursor: an existing tab whose rectangle holds the cursor position.\<close>

theorem mouseRelease_signal_tab:
  "s \<in> set (emitted (mouseReleaseEvent tb sel ev)) \<Longrightarrow>
     signal_index s = tabAt tb (pos ev) \<and> 0 \<le> signal_index s \<and> signal_index s < int (tabCount tb) \<and>
     rect_contains (tabRects tb ! nat (signal_index s)) (pos ev)"
proof -
  assume "s \<in> set (emitted (mouseReleaseEvent tb sel ev))"
  then have nn: "0 \<le> tabAt tb (pos ev)" and idx: "signal_index s = tabAt tb (pos ev)"
    by (auto dest: mouseRelease_emitted_index)
  with tabAt_range [of tb "pos ev"] tabAt_hit [OF nn] show ?thesis by simp
qed

theorem mouseRelease_signal_tab_witness:
  "reloadTabRequested 1 \<in> set (emitted (mouseReleaseEvent demo_bar (Some 13) (demo_click RightButton 150))) \<and>
   signal_index (reloadTabRequested 1) = 1 \<and> 1 < int (tabCount demo_bar)"
proof -
  have e: "reloadTabRequested 1 \<in> set (emitted (mouseReleaseEvent demo_bar (Some 13) (demo_click RightButton 150)))"
    by (simp add: mouseReleaseEvent_def emitSignalForContextMenuAction_def demo_tabAt Let_def)
  show ?thesis using e mouseRelease_signal_tab [OF e] by (simp add: tabCount_def)
qed

text \<open>C8: the dispatch refines the command specification: with distinct
  action pointers, an action yields a signal exactly when it is the action of
  a shell command, and the signal is that command's signal for the tab.\<close>

theorem emitSignalForContextMenuAction_spec:
  "distinct (action_ptrs tb) \<Longrightarrow>
     emitSignalForContextMenuAction tb i a = Some s \<longleftrightarrow>
       (\<exists>c. a = command_action tb c \<and> s = command_signal c i)"
  by (auto dest: emitSignal_Some simp: emitSignal_command)

theorem emitSignalForContextMenuAction_spec_witness:
  "distinct (action_ptrs demo_bar) \<and>
   (emitSignalForContextMenuAction demo_bar 4 17 = Some (closeOtherTabsRequested 4) \<longleftrightarrow>
     (\<exists>c. (17::ptr) = command_action demo_bar c \<and> closeOtherTabsRequested 4 = command_signal c 4))"
  using emitSignalForContextMenuAction_spec [OF demo_distinct, of 4 17 "closeOtherTabsRequested 4"]
    demo_distinct by simp

text \<open>C9: when the user dismisses the menu, nothing is emitted and the event
  is not passed on to \<open>QTabBar\<close>.\<close>

theorem mouseRelease_right_dismissed:
  "button ev = RightButton \<Longrightarrow> 0 \<le> tabAt tb (pos ev) \<Longrightarrow>
     mouseReleaseEvent tb None ev = [ExecMenu (menu tb)]"
  by (simp add: mouseReleaseEvent_def Let_def)

theorem mouseRelease_right_dismissed_witness:
  "button (demo_click RightButton 150) = RightButton \<and>
   0 \<le> tabAt demo_bar (pos (demo_click RightButton 150)) \<and>
   mouseReleaseEvent demo_bar None (demo_click RightButton 150) = [ExecMenu 11]"
  using mouseRelease_right_dismissed [of "demo_click RightButton 150" demo_bar] demo_tabAt by simp

text \<open>C10: a release of any other button only passes the event on to
  \<open>QTabBar\<close>.\<close>

theorem mouseRelease_other_button:
  "button ev \<noteq> MidButton \<Longrightarrow> button ev \<noteq> RightButton \<Longrightarrow>
     mouseReleaseEvent tb sel ev = [BaseMouseRelease ev]"
  by (simp add: mouseReleaseEvent_def)

theorem mouseRelease_other_button_witness:
  "button (demo_click LeftButton 150) \<noteq> MidButton \<and> button (demo_click LeftButton 150) \<noteq> RightButton \<and>
   mouseReleaseEvent demo_bar (Some 13) (demo_click LeftButton 150) =
     [BaseMouseRelease (demo_click LeftButton 150)]"
  using mouseRelease_other_button [of "demo_click LeftButton 150" demo_bar "Some 13"] by simp

text \<open>C11: one release emits at most one signal.\<close>

theorem mouseRelease_at_most_one:
  "length (emitted (mouseReleaseEvent tb sel ev)) \<le> 1"
  by (simp add: mouseRelease_emitted split: option.split)

text \<open>C20: the chain of pointer comparisons in the dispatch is a first-match
  lookup of the picked action in the table of commands, taken in the source's
  order, followed by the signal of the command found; this holds for every
  tab bar, also when two action members alias one object (the first command
  in the table wins).\<close>

theorem emitSignal_first_match:
  "emitSignalForContextMenuAction tb i a =
     map_option (\<lambda>c. command_signal c i) (find (\<lambda>c. a = command_action tb c) shell_commands)"
  by (simp add: emitSignalForContextMenuAction_def shell_commands_def)

end
