(* ===== verification/TabBar_Session.thy ===== *)
theory TabBar_Session
  imports TabBar_Events
begin

text \<open>
  A tab bar over its lifetime. After the constructor, two kinds of steps
  interleave in any order: the user releases a mouse button (the handler runs
  with whatever answer the toolkit's menu allows, and the signals it emits are
  logged together with the number of tabs at that moment), and the owner of
  the tab bar (the tab widget, reacting to those signals or to anything else)
  adds, removes, moves or re-selects tabs, which changes the geometry
  \<open>tabAt\<close> reads. Rule induction over the reachable sessions shows that the
  tab bar stays well formed, that every logged signal named a tab that existed
  when it was emitted, and that the Pin signal is never emitted.
\<close>

section \<open>Sessions\<close>

record session =
  bar :: WorkAreaTabBar
  store :: ObjHeap
  log :: "(signal \<times> nat) list"

fun is_pin :: "signal \<Rightarrow> bool" where
  "is_pin (pinTabRequested _) = True"
| "is_pin _ = False"

inductive session_step :: "session \<Rightarrow> session \<Rightarrow> bool" where
  release: "menu_exec_ok (store s) (menu (bar s)) sel \<Longrightarrow>
    session_step s (s\<lparr>log := log s @
      map (\<lambda>sg. (sg, tabCount (bar s))) (emitted (mouseReleaseEvent (bar s) sel ev))\<rparr>)"
| relayout: "session_step s (s\<lparr>bar := (bar s)\<lparr>tabRects := rs, currentIndex := c\<rparr>\<rparr>)"

inductive session_reachable :: "session \<Rightarrow> bool" where
  start: "heap_ok h \<Longrightarrow> run_state (WorkAreaTabBar_ctor self) h = (tb, h') \<Longrightarrow>
    session_reachable \<lparr>bar = tb, store = h', log = []\<rparr>"
| step: "session_reachable s \<Longrightarrow> session_step s t \<Longrightarrow> session_reachable t"

text \<open>A logged signal is sound when it named an existing tab at the time and
  is not the Pin signal.\<close>

definition log_entry_ok :: "signal \<times> nat \<Rightarrow> bool" where
  "log_entry_ok e \<longleftrightarrow>
     0 \<le> signal_index (fst e) \<and> signal_index (fst e) < int (snd e) \<and> \<not> is_pin (fst e)"

definition session_inv :: "session \<Rightarrow> bool" where
  "session_inv s \<longleftrightarrow>
     tabbar_wf (store s) (bar s) \<and>
     pinShellAction (bar s) \<notin> set (menu_actions (store s) (menu (bar s))) \<and>
     list_all log_entry_ok (log s)"

text \<open>A sample run: the constructor on an empty store, then the owner lays
  out the two overlapping tabs of \<open>demo_bar\<close>.\<close>

abbreviation demo_heap :: ObjHeap where
  "demo_heap \<equiv> \<lparr>objs = Map.empty, nextPtr = 1\<rparr>"

abbreviation demo_start :: session where
  "demo_start \<equiv> \<lparr>bar = fst (run_state (WorkAreaTabBar_ctor 0) demo_heap),
                 store = snd (run_state (WorkAreaTabBar_ctor 0) demo_heap), log = []\<rparr>"

abbreviation demo_laid_out :: session where
  "demo_laid_out \<equiv> demo_start\<lparr>bar := (bar demo_start)\<lparr>tabRects := tabRects demo_bar,
     currentIndex := 0\<rparr>\<rparr>"

section \<open>Lemmas\<close>

lemma set_action_ptrs: "a \<in> set (action_ptrs tb) \<longleftrightarrow> (\<exists>c. a = command_action tb c)"
proof
  assume "a \<in> set (action_ptrs tb)"
  then show "\<exists>c. a = command_action tb c"
    by (auto simp: action_ptrs_def intro: command_action.simps[symmetric])
next
  assume "\<exists>c. a = command_action tb c"
  then show "a \<in> set (action_ptrs tb)" by (auto intro: command_action_in_action_ptrs)
qed

text \<open>In a well-formed tab bar whose menu does not list Pin, every action
  the menu lets the user pick is the action of a command other than Pin.\<close>

lemma selectable_command:
  assumes wf: "tabbar_wf h tb" and nopin: "pinShellAction tb \<notin> set (menu_actions h (menu tb))"
    and sel: "selectable h (menu tb) a"
  shows "\<exists>c. c \<noteq> PinShell \<and> a = command_action tb c"
proof -
  from sel have inm: "a \<in> set (menu_actions h (menu tb))" and nsep: "\<not> is_separator h a"
    by (auto simp: selectable_def is_separator_def split: option.splits QKind.splits)
  from wf inm nsep have "a \<in> set (action_ptrs tb)"
    by (auto simp: tabbar_wf_def list_all_iff)
  then obtain c where c: "a = command_action tb c" by (auto simp: set_action_ptrs)
  with inm nopin have "c \<noteq> PinShell" by auto
  with c show ?thesis by blast
qed

lemma release_emitted_ok:
  assumes inv: "session_inv s" and ok: "menu_exec_ok (store s) (menu (bar s)) sel"
    and sg: "sg \<in> set (emitted (mouseReleaseEvent (bar s) sel ev))"
  shows "log_entry_ok (sg, tabCount (bar s))"
proof -
  from sg have nn: "0 \<le> tabAt (bar s) (pos ev)" and idx: "signal_index sg = tabAt (bar s) (pos ev)"
    by (auto dest: mouseRelease_emitted_index)
  have npin: "\<not> is_pin sg"
  proof (cases "button ev = MidButton")
    case True
    with nn have "emitted (mouseReleaseEvent (bar s) sel ev) = [tabCloseRequested (tabAt (bar s) (pos ev))]"
      by (simp add: mouseRelease_emitted)
    with sg show ?thesis by simp
  next
    case False
    have r: "button ev = RightButton"
      using False sg nn by (cases "button ev = RightButton") (simp_all add: mouseRelease_emitted)
    obtain a where a: "sel = Some a"
      using False r sg nn by (cases sel) (simp_all add: mouseRelease_emitted)
    have e: "emitSignalForContextMenuAction (bar s) (tabAt (bar s) (pos ev)) a = Some sg"
      using False r sg nn a
      by (cases "emitSignalForContextMenuAction (bar s) (tabAt (bar s) (pos ev)) a")
        (simp_all add: mouseRelease_emitted)
    from ok a have "selectable (store s) (menu (bar s)) a" by (simp add: menu_exec_ok_def)
    with inv obtain c where c: "c \<noteq> PinShell" and ac: "a = command_action (bar s) c"
      by (auto simp: session_inv_def dest: selectable_command)
    from inv have d: "distinct (action_ptrs (bar s))"
      by (simp add: session_inv_def tabbar_wf_def)
    from e ac emitSignal_command [OF d, of "tabAt (bar s) (pos ev)" c]
    have "sg = command_signal c (tabAt (bar s) (pos ev))" by simp
    with c show ?thesis by (cases c) simp_all
  qed
  from nn idx npin tabAt_range [of "bar s" "pos ev"] show ?thesis
    by (simp add: log_entry_ok_def)
qed

lemma session_step_inv: "session_step s t \<Longrightarrow> session_inv s \<Longrightarrow> session_inv t"
proof (induction rule: session_step.induct)
  case (release s sel ev)
  then show ?case
    by (auto simp: session_inv_def list_all_iff intro: release_emitted_ok)
next
  case (relayout s rs c)
  then show ?case
    by (simp add: session_inv_def tabbar_wf_def action_ptrs_def)
qed

lemma session_start_inv:
  "heap_ok h \<Longrightarrow> run_state (WorkAreaTabBar_ctor self) h = (tb, h') \<Longrightarrow>
     session_inv \<lparr>bar = tb, store = h', log = []\<rparr>"
  using WorkAreaTabBar_ctor_start by (simp add: session_inv_def)

lemma session_reachable_inv: "session_reachable s \<Longrightarrow> session_inv s"
proof (induction rule: session_reachable.induct)
  case (start h self tb h')
  then show ?case by (rule session_start_inv)
next
  case (step s t)
  then show ?case by (blast intro: session_step_inv)
qed


lemma demo_laid_out_reachable: "session_reachable demo_laid_out"
proof -
  have "session_reachable demo_start"
    by (rule session_reachable.start [of demo_heap 0]) (simp_all add: heap_ok_def)
  then show ?thesis by (rule session_reachable.step [OF _ session_step.relayout])
qed

end
