(* ===== verification/Qt_TabWidget.thy ===== *)
theory Qt_TabWidget
  imports Qt_Model
begin

text \<open>
  The tab list of \<open>QTabWidget\<close> (the toolkit's tab container, of which
  \<open>WorkAreaTabWidget\<close> is a subclass), modelled from Qt's
  \<open>QTabBar::insertTab\<close>, \<open>QTabBar::removeTab\<close> and
  \<open>QTabBar::setCurrentIndex\<close>: library code, so not in the map. The state
  is the list of page widgets and the current index; each operation returns
  the new state and the value of the \<open>currentChanged(int)\<close> signal it emits,
  if any. Removal uses Qt's default \<open>SelectRightTab\<close> behaviour. The
  lemmas show that every operation keeps the current index valid (\<open>-1\<close>
  exactly when there is no page), that \<open>currentChanged\<close> always carries such
  an index, and what each operation does to the page list.
\<close>

section \<open>State and operations\<close>

record QTabWidget =
  pages :: "ptr list"
  curIdx :: int

definition validIndex :: "QTabWidget \<Rightarrow> int \<Rightarrow> bool" where
  "validIndex w i \<longleftrightarrow> 0 \<le> i \<and> i < int (length (pages w))"

text \<open>Qt's class invariant of the tab list: no current tab exactly when
  there is no tab.\<close>

definition qtw_ok :: "QTabWidget \<Rightarrow> bool" where
  "qtw_ok w \<longleftrightarrow> (if pages w = [] then curIdx w = -1 else validIndex w (curIdx w))"

text \<open>An index that is not valid is ignored; a change is announced.\<close>

definition setCurrentIndex :: "int \<Rightarrow> QTabWidget \<Rightarrow> QTabWidget \<times> int option" where
  "setCurrentIndex i w =
     (if validIndex w i \<and> i \<noteq> curIdx w then (w\<lparr>curIdx := i\<rparr>, Some i) else (w, None))"

text \<open>An index that is not valid appends; the first tab becomes current
  (announced), an insertion at or before the current tab shifts it silently.\<close>

definition insertTab :: "int \<Rightarrow> ptr \<Rightarrow> QTabWidget \<Rightarrow> QTabWidget \<times> int option" where
  "insertTab i pg w =
     (let j = (if validIndex w i then nat i else length (pages w));
          ps = take j (pages w) @ pg # drop j (pages w)
      in if pages w = [] then (w\<lparr>pages := ps, curIdx := int j\<rparr>, Some (int j))
         else (w\<lparr>pages := ps, curIdx := (if int j \<le> curIdx w then curIdx w + 1 else curIdx w)\<rparr>,
               None))"

text \<open>Removing the current tab selects the tab that moves into its place,
  or the new last tab, or none (\<open>currentChanged(-1)\<close>); removing a tab before
  the current one shifts the current index down, announced.\<close>

definition removeTab :: "int \<Rightarrow> QTabWidget \<Rightarrow> QTabWidget \<times> int option" where
  "removeTab i w =
     (if validIndex w i then
        (let ps = take (nat i) (pages w) @ drop (Suc (nat i)) (pages w)
         in if i = curIdx w then
              (if ps = [] then (w\<lparr>pages := ps, curIdx := -1\<rparr>, Some (-1))
               else (w\<lparr>pages := ps, curIdx := min i (int (length ps) - 1)\<rparr>,
                     Some (min i (int (length ps) - 1))))
            else if i < curIdx w then (w\<lparr>pages := ps, curIdx := curIdx w - 1\<rparr>, Some (curIdx w - 1))
            else (w\<lparr>pages := ps\<rparr>, None))
      else (w, None))"

text \<open>The tab list changes a tab container's owner can make.\<close>

datatype tab_op = InsertTab int ptr | RemoveTab int | SetCurrentIndex int

fun apply_tab_op :: "tab_op \<Rightarrow> QTabWidget \<Rightarrow> QTabWidget \<times> int option" where
  "apply_tab_op (InsertTab i pg) w = insertTab i pg w"
| "apply_tab_op (RemoveTab i) w = removeTab i w"
| "apply_tab_op (SetCurrentIndex i) w = setCurrentIndex i w"

text \<open>What a \<open>currentChanged\<close> announcement may carry after a change.\<close>

definition current_changed_ok :: "QTabWidget \<Rightarrow> int option \<Rightarrow> bool" where
  "current_changed_ok w ch \<longleftrightarrow> (case ch of None \<Rightarrow> True | Some k \<Rightarrow> k = curIdx w)"

section \<open>Lemmas\<close>

text \<open>Indexing the list that remains when element \<open>n\<close> is removed.\<close>

lemma nth_remove_before: "k < n \<Longrightarrow> n < length xs \<Longrightarrow> (take n xs @ drop (Suc n) xs) ! k = xs ! k"
  by (simp add: nth_append)

lemma nth_remove_after:
  "n < k \<Longrightarrow> k < length xs \<Longrightarrow> (take n xs @ drop (Suc n) xs) ! (k - 1) = xs ! k"
  by (cases k) (simp_all add: nth_append)

lemma setCurrentIndex_ok:
  "qtw_ok w \<Longrightarrow> setCurrentIndex i w = (w', ch) \<Longrightarrow> qtw_ok w' \<and> current_changed_ok w' ch"
  by (auto simp: setCurrentIndex_def qtw_ok_def validIndex_def current_changed_ok_def
      split: if_splits)

lemma insertTab_ok:
  "qtw_ok w \<Longrightarrow> insertTab i pg w = (w', ch) \<Longrightarrow> qtw_ok w' \<and> current_changed_ok w' ch"
  by (auto simp: insertTab_def qtw_ok_def validIndex_def current_changed_ok_def Let_def
      split: if_splits)

lemma removeTab_ok:
  "qtw_ok w \<Longrightarrow> removeTab i w = (w', ch) \<Longrightarrow> qtw_ok w' \<and> current_changed_ok w' ch"
  by (auto simp: removeTab_def qtw_ok_def validIndex_def current_changed_ok_def Let_def
      min_def split: if_splits)

lemma apply_tab_op_ok:
  assumes ok: "qtw_ok w" and op: "apply_tab_op op w = (w', ch)"
  shows "qtw_ok w' \<and> current_changed_ok w' ch"
proof (cases op)
  case (InsertTab i pg)
  with op have "insertTab i pg w = (w', ch)" by simp
  with ok show ?thesis by (rule insertTab_ok)
next
  case (RemoveTab i)
  with op have "removeTab i w = (w', ch)" by simp
  with ok show ?thesis by (rule removeTab_ok)
next
  case (SetCurrentIndex i)
  with op have "setCurrentIndex i w = (w', ch)" by simp
  with ok show ?thesis by (rule setCurrentIndex_ok)
qed

text \<open>Removing a valid tab removes exactly that page, keeping the others in
  their order; the page that was current stays current unless it is the one
  removed.\<close>

lemma removeTab_pages:
  "validIndex w i \<Longrightarrow> pages (fst (removeTab i w)) = take (nat i) (pages w) @ drop (Suc (nat i)) (pages w)"
  by (simp add: removeTab_def Let_def)

lemma removeTab_keeps_current:
  assumes ok: "qtw_ok w" and v: "validIndex w i" and ne: "i \<noteq> curIdx w"
  shows "pages (fst (removeTab i w)) ! nat (curIdx (fst (removeTab i w))) = pages w ! nat (curIdx w)"
proof -
  from ok v have c: "0 \<le> curIdx w" "curIdx w < int (length (pages w))"
    by (auto simp: qtw_ok_def validIndex_def split: if_splits)
  show ?thesis
  proof (cases "i < curIdx w")
    case True
    with v c have "nat i < nat (curIdx w)" "nat (curIdx w - 1) = nat (curIdx w) - 1"
      by (auto simp: validIndex_def)
    with True v c nth_remove_after [of "nat i" "nat (curIdx w)" "pages w"] show ?thesis
      by (simp add: removeTab_def Let_def validIndex_def)
  next
    case False
    with v c ne have "nat (curIdx w) < nat i" by (auto simp: validIndex_def)
    with False v c ne nth_remove_before [of "nat (curIdx w)" "nat i" "pages w"] show ?thesis
      by (simp add: removeTab_def Let_def validIndex_def)
  qed
qed

end
