(* ===== verification/TabArea.thy ===== *)
theory TabArea
  imports TabBar_Session Qt_TabWidget
begin

text \<open>
  The tab bar inside its owner. \<open>WorkAreaTabWidget\<close> (header
  \<^verbatim>\<open>WorkAreaTabWidget.h\<close>) is a \<open>QTabWidget\<close> that installs a
  \<open>WorkAreaTabBar\<close> as its tab bar, so the bar's tabs are the widget's pages
  and its current index is the widget's. The header declares the widget's
  members; their bodies and the \<open>connect\<close> calls are in a source file that
  is not in the excerpt, so the slots the tab bar's signals reach and what the
  close slot does are modelled from the header's names and the spec's
  lifecycle (marked as such in the map): \<open>tabCloseRequested\<close> reaches
  \<open>ui_tabCloseRequested\<close>, which removes the page; \<open>newTabRequested\<close> reaches
  \<open>ui_newTabRequested\<close>; \<open>currentChanged\<close> of the widget reaches
  \<open>ui_currentChanged\<close>; the other five signals reach no slot of the widget.

  A tab area runs user releases (the handler, then the connected slots,
  called synchronously in the order of emission, with the nested
  \<open>currentChanged\<close> announcement of a removal) interleaved with any change of
  the tab list by the application (\<open>insertTab\<close>, \<open>removeTab\<close>,
  \<open>setCurrentIndex\<close>), after which Qt lays the tabs out again. Every slot
  call is logged with the number of pages at that moment. Rule induction
  shows that the bar and the widget keep agreeing and that the constructor's
  menu keeps offering Close Shell; the properties say what a middle click and
  a pick of Close Shell do to the pages.
\<close>

section \<open>The tab widget's interface\<close>

text \<open>The members \<open>WorkAreaTabWidget.h\<close> declares, with their arguments: the
  constructor, the key handler and the three public slots.\<close>

datatype WorkAreaTabWidget_member =
    WorkAreaTabWidget ptr
  | keyPressEvent keycode
  | ui_tabCloseRequested int
  | ui_newTabRequested int
  | ui_currentChanged int

text \<open>The slot of the widget each signal of the tab bar is connected to.\<close>

fun connected_slot :: "signal \<Rightarrow> WorkAreaTabWidget_member option" where
  "connected_slot (tabCloseRequested i) = Some (ui_tabCloseRequested i)"
| "connected_slot (newTabRequested i) = Some (ui_newTabRequested i)"
| "connected_slot _ = None"

text \<open>What a slot call does to the tab list at once: closing removes the
  page; a new shell is opened by the application, whose tab arrives later as
  a change of the tab list.\<close>

definition slot_effect :: "WorkAreaTabWidget_member \<Rightarrow> QTabWidget \<Rightarrow> QTabWidget \<times> int option" where
  "slot_effect c w = (case c of ui_tabCloseRequested i \<Rightarrow> removeTab i w | _ \<Rightarrow> (w, None))"

text \<open>A \<open>currentChanged\<close> announcement calls \<open>ui_currentChanged\<close>.\<close>

definition announce :: "QTabWidget \<Rightarrow> int option \<Rightarrow> (WorkAreaTabWidget_member \<times> nat) list" where
  "announce w ch = (case ch of None \<Rightarrow> [] | Some k \<Rightarrow> [(ui_currentChanged k, length (pages w))])"

text \<open>Delivery of emitted signals, in order, each to its slot.\<close>

fun deliver :: "signal list \<Rightarrow> QTabWidget \<Rightarrow> QTabWidget \<times> (WorkAreaTabWidget_member \<times> nat) list" where
  "deliver [] w = (w, [])"
| "deliver (sg # sgs) w =
     (case connected_slot sg of
        None \<Rightarrow> deliver sgs w
      | Some c \<Rightarrow>
          (case slot_effect c w of (w1, ch) \<Rightarrow>
             (case deliver sgs w1 of (w2, cs) \<Rightarrow> (w2, (c, length (pages w)) # announce w1 ch @ cs))))"

section \<open>Tab areas\<close>

text \<open>After a change of the tab list the bar shows the widget's tabs: new
  rectangles, one per page, and the widget's current index.\<close>

definition bar_follows :: "QTabWidget \<Rightarrow> QRect list \<Rightarrow> WorkAreaTabBar \<Rightarrow> WorkAreaTabBar" where
  "bar_follows w rs tb = tb\<lparr>tabRects := rs, currentIndex := curIdx w\<rparr>"

record tab_area =
  area_bar :: WorkAreaTabBar
  area_store :: ObjHeap
  area_widget :: QTabWidget
  slot_calls :: "(WorkAreaTabWidget_member \<times> nat) list"

inductive area_step :: "tab_area \<Rightarrow> tab_area \<Rightarrow> bool" where
  release: "menu_exec_ok (area_store a) (menu (area_bar a)) sel \<Longrightarrow>
    deliver (emitted (mouseReleaseEvent (area_bar a) sel ev)) (area_widget a) = (w, cs) \<Longrightarrow>
    length rs = length (pages w) \<Longrightarrow>
    area_step a (a\<lparr>area_bar := bar_follows w rs (area_bar a), area_widget := w,
                  slot_calls := slot_calls a @ cs\<rparr>)"
| change: "apply_tab_op op (area_widget a) = (w, ch) \<Longrightarrow> length rs = length (pages w) \<Longrightarrow>
    area_step a (a\<lparr>area_bar := bar_follows w rs (area_bar a), area_widget := w,
                  slot_calls := slot_calls a @ announce w ch\<rparr>)"

inductive area_reachable :: "tab_area \<Rightarrow> bool" where
  start: "heap_ok h \<Longrightarrow> run_state (WorkAreaTabBar_ctor self) h = (tb, h') \<Longrightarrow>
    area_reachable \<lparr>area_bar = tb, area_store = h', area_widget = \<lparr>pages = [], curIdx = -1\<rparr>,
                    slot_calls = []\<rparr>"
| step: "area_reachable a \<Longrightarrow> area_step a b \<Longrightarrow> area_reachable b"

definition area_inv :: "tab_area \<Rightarrow> bool" where
  "area_inv a \<longleftrightarrow>
     qtw_ok (area_widget a) \<and> tabCount (area_bar a) = length (pages (area_widget a)) \<and>
     currentIndex (area_bar a) = curIdx (area_widget a) \<and>
     selectable (area_store a) (menu (area_bar a)) (closeShellAction (area_bar a)) \<and>
     distinct (action_ptrs (area_bar a))"

text \<open>A sample run: the constructor on an empty store; the application
  inserts two pages (100 and 101) whose tabs overlap by two pixels; the user
  middle-clicks the second tab, then the first.\<close>

abbreviation demo_tb0 :: WorkAreaTabBar where
  "demo_tb0 \<equiv> fst (run_state (WorkAreaTabBar_ctor 0) demo_heap)"

abbreviation demo_area :: "QRect list \<Rightarrow> int \<Rightarrow> ptr list \<Rightarrow> (WorkAreaTabWidget_member \<times> nat) list \<Rightarrow> tab_area" where
  "demo_area rs c ps cs \<equiv> \<lparr>area_bar = demo_tb0\<lparr>tabRects := rs, currentIndex := c\<rparr>,
     area_store = snd (run_state (WorkAreaTabBar_ctor 0) demo_heap),
     area_widget = \<lparr>pages = ps, curIdx = c\<rparr>, slot_calls = cs\<rparr>"

abbreviation demo_r0 :: QRect where "demo_r0 \<equiv> \<lparr>rx = 0, ry = 0, rw = 100, rh = 20\<rparr>"
abbreviation demo_r1 :: QRect where "demo_r1 \<equiv> \<lparr>rx = 98, ry = 0, rw = 100, rh = 20\<rparr>"

abbreviation demo_area2 :: tab_area where
  "demo_area2 \<equiv> demo_area [demo_r0, demo_r1] 0 [100, 101] [(ui_currentChanged 0, 1)]"

section \<open>Lemmas\<close>

lemma mouseRelease_emitted_cases:
  "emitted (mouseReleaseEvent tb sel ev) = [] \<or> (\<exists>s. emitted (mouseReleaseEvent tb sel ev) = [s])"
  by (simp add: mouseRelease_emitted split: option.split)

lemma slot_effect_ok:
  assumes ok: "qtw_ok w" and e: "slot_effect c w = (w', ch)"
  shows "qtw_ok w' \<and> current_changed_ok w' ch"
proof (cases "\<exists>i. c = ui_tabCloseRequested i")
  case True
  then obtain i where "c = ui_tabCloseRequested i" by blast
  with e have "removeTab i w = (w', ch)" by (simp add: slot_effect_def)
  with ok show ?thesis by (rule removeTab_ok)
next
  case False
  with ok e show ?thesis by (cases c) (auto simp: slot_effect_def current_changed_ok_def)
qed

lemma release_deliver_ok:
  assumes ok: "qtw_ok w0"
    and d: "deliver (emitted (mouseReleaseEvent tb sel ev)) w0 = (w, cs)"
  shows "qtw_ok w"
proof -
  consider (none) "emitted (mouseReleaseEvent tb sel ev) = []"
    | (one) s where "emitted (mouseReleaseEvent tb sel ev) = [s]"
    using mouseRelease_emitted_cases by blast
  then show ?thesis
  proof cases
    case none
    with ok d show ?thesis by simp
  next
    case one
    show ?thesis
    proof (cases "connected_slot s")
      case None
      with one ok d show ?thesis by simp
    next
      case (Some c)
      obtain w1 ch where e: "slot_effect c w0 = (w1, ch)" by (cases "slot_effect c w0")
      from one d Some e have "w = w1" by auto
      with slot_effect_ok [OF ok e] show ?thesis by simp
    qed
  qed
qed

lemma area_step_inv: "area_step a b \<Longrightarrow> area_inv a \<Longrightarrow> area_inv b"
proof (induction rule: area_step.induct)
  case (release a sel ev w cs rs)
  from release.prems have "qtw_ok (area_widget a)" by (simp add: area_inv_def)
  from this release.hyps(2) have "qtw_ok w" by (rule release_deliver_ok)
  with release show ?case by (simp add: area_inv_def bar_follows_def tabCount_def action_ptrs_def)
next
  case (change op a w ch rs)
  from change.prems have "qtw_ok (area_widget a)" by (simp add: area_inv_def)
  from apply_tab_op_ok [OF this change.hyps(1)] have "qtw_ok w \<and> current_changed_ok w ch" .
  with change show ?case
    by (simp add: area_inv_def bar_follows_def tabCount_def action_ptrs_def)
qed

lemma area_start_inv:
  "run_state (WorkAreaTabBar_ctor self) h = (tb, h') \<Longrightarrow>
     area_inv \<lparr>area_bar = tb, area_store = h', area_widget = \<lparr>pages = [], curIdx = -1\<rparr>, slot_calls = []\<rparr>"
proof -
  assume "run_state (WorkAreaTabBar_ctor self) h = (tb, h')"
  then have "tb = fst (run_state (WorkAreaTabBar_ctor self) h)"
    and "h' = snd (run_state (WorkAreaTabBar_ctor self) h)" by simp_all
  then show ?thesis
    by (simp add: area_inv_def ctor_simps tabCount_def qtw_ok_def selectable_def menu_actions_def
        action_ptrs_def Let_def)
qed

lemma area_reachable_inv: "area_reachable a \<Longrightarrow> area_inv a"
proof (induction rule: area_reachable.induct)
  case (start h self tb h')
  then show ?case by (blast intro: area_start_inv)
next
  case (step a b)
  then show ?case by (blast intro: area_step_inv)
qed

text \<open>Steps to a given state, for the sample run.\<close>

lemma area_step_change_to:
  "apply_tab_op op (area_widget a) = (w, ch) \<Longrightarrow> length rs = length (pages w) \<Longrightarrow>
     b = a\<lparr>area_bar := bar_follows w rs (area_bar a), area_widget := w,
           slot_calls := slot_calls a @ announce w ch\<rparr> \<Longrightarrow> area_step a b"
  by (simp add: area_step.change)

lemma demo_area2_reachable: "area_reachable demo_area2"
proof -
  let ?a0 = "\<lparr>area_bar = demo_tb0, area_store = snd (run_state (WorkAreaTabBar_ctor 0) demo_heap),
              area_widget = \<lparr>pages = [], curIdx = -1\<rparr>, slot_calls = []\<rparr>"
  have r0: "area_reachable ?a0"
    by (rule area_reachable.start [of demo_heap 0]) (simp_all add: heap_ok_def)
  have b0: "currentIndex demo_tb0 = -1" "tabRects demo_tb0 = []"
    by (simp_all add: WorkAreaTabBar_ctor_bar)
  have s1: "area_step ?a0 (demo_area [demo_r0] 0 [100] [(ui_currentChanged 0, 1)])"
    by (rule area_step_change_to [of "InsertTab 0 100" _ "\<lparr>pages = [100], curIdx = 0\<rparr>" "Some 0"])
      (simp_all add: insertTab_def validIndex_def bar_follows_def announce_def)
  have s2: "area_step (demo_area [demo_r0] 0 [100] [(ui_currentChanged 0, 1)]) demo_area2"
    by (rule area_step_change_to [of "InsertTab 1 101" _ "\<lparr>pages = [100, 101], curIdx = 0\<rparr>" None])
      (simp_all add: insertTab_def validIndex_def bar_follows_def announce_def)
  from r0 s1 s2 show ?thesis by (blast intro: area_reachable.step)
qed

lemma demo_area2_release:
  "deliver (emitted (mouseReleaseEvent (area_bar demo_area2) None (demo_click MidButton 150)))
     (area_widget demo_area2) = (\<lparr>pages = [100], curIdx = 0\<rparr>, [(ui_tabCloseRequested 1, 2)])"
  by (simp add: mouseReleaseEvent_def tabAt_def rect_contains_def Let_def slot_effect_def
      removeTab_def validIndex_def announce_def)

section \<open>Properties of the tab area\<close>

text \<open>C19: in every tab area, a middle click over a tab calls the close slot
  first, for that tab, and the page list loses exactly the page of the tab
  under the cursor, the other pages keeping their order; when that tab was not
  the current one, the user stays on the same page.\<close>

theorem area_mid_close:
  assumes r: "area_reachable a" and b: "button ev = MidButton"
    and i: "tabAt (area_bar a) (pos ev) = i" and nn: "0 \<le> i"
    and d: "deliver (emitted (mouseReleaseEvent (area_bar a) sel ev)) (area_widget a) = (w, cs)"
  shows "rect_contains (tabRects (area_bar a) ! nat i) (pos ev) \<and>
    hd cs = (ui_tabCloseRequested i, length (pages (area_widget a))) \<and>
    pages w = take (nat i) (pages (area_widget a)) @ drop (Suc (nat i)) (pages (area_widget a)) \<and>
    (i \<noteq> curIdx (area_widget a) \<longrightarrow>
       pages w ! nat (curIdx w) = pages (area_widget a) ! nat (curIdx (area_widget a)))"
proof -
  from r have inv: "area_inv a" by (rule area_reachable_inv)
  then have ok: "qtw_ok (area_widget a)" by (simp add: area_inv_def)
  from inv i nn tabAt_range [of "area_bar a" "pos ev"] have v: "validIndex (area_widget a) i"
    by (simp add: area_inv_def validIndex_def)
  from b i nn have "emitted (mouseReleaseEvent (area_bar a) sel ev) = [tabCloseRequested i]"
    by (simp add: mouseRelease_emitted)
  with d have w: "w = fst (removeTab i (area_widget a))"
    and cs: "hd cs = (ui_tabCloseRequested i, length (pages (area_widget a)))"
    by (auto simp: slot_effect_def split: prod.splits)
  from i nn have "rect_contains (tabRects (area_bar a) ! nat i) (pos ev)" by (auto intro: tabAt_hit)
  with cs w removeTab_pages [OF v] removeTab_keeps_current [OF ok v] show ?thesis by simp
qed

theorem area_mid_close_witness:
  "area_reachable demo_area2 \<and> button (demo_click MidButton 150) = MidButton \<and>
   tabAt (area_bar demo_area2) (pos (demo_click MidButton 150)) = 1 \<and> (0::int) \<le> 1 \<and>
   pages \<lparr>pages = [100::ptr], curIdx = 0\<rparr> = [100] \<and>
   pages \<lparr>pages = [100::ptr], curIdx = 0\<rparr> ! nat (curIdx \<lparr>pages = [100::ptr], curIdx = 0\<rparr>) = 100"
proof -
  have i: "tabAt (area_bar demo_area2) (pos (demo_click MidButton 150)) = 1"
    by (simp add: tabAt_def rect_contains_def)
  have b: "button (demo_click MidButton 150) = MidButton" by simp
  have nn: "(0::int) \<le> 1" by simp
  show ?thesis
    using area_mid_close [OF demo_area2_reachable b i nn demo_area2_release] demo_area2_reachable b i
    by simp
qed



end
