(* ===== verification/TabArea_Runs.thy ===== *)
theory TabArea_Runs
  imports TabArea
begin

text \<open>
  Two views of releases in a tab area beyond the single step.

  \<^item> The order of a release's effects: \<open>run_effects\<close> performs the handler's
    effect list in order (showing the menu, emitting a signal, which calls
    the connected slot at once, passing the event to
    \<open>QTabBar::mouseReleaseEvent\<close>) and records what each effect observes:
    the number of pages when the menu is shown, each slot call, the number of
    pages when the base class handles the release.
  \<^item> A user who repeats the same release until it changes no page:
    \<open>repeat_release\<close>, a loop in the option monad (\<open>None\<close> would be a run
    that never ends), with the tab geometry after each change given by a
    layout function. The number of pages is its variant, so it always
    returns; each round is a step of the tab area.
\<close>

section \<open>The order of a release's effects\<close>

datatype observation =
    MenuShown ptr nat
  | SlotCalled WorkAreaTabWidget_member nat
  | BaseHandled nat

fun run_effects :: "effect list \<Rightarrow> QTabWidget \<Rightarrow> QTabWidget \<times> observation list" where
  "run_effects [] w = (w, [])"
| "run_effects (ExecMenu m # es) w =
     (case run_effects es w of (w', os) \<Rightarrow> (w', MenuShown m (length (pages w)) # os))"
| "run_effects (Emit sg # es) w =
     (case deliver [sg] w of (w1, cs) \<Rightarrow>
        (case run_effects es w1 of (w2, os) \<Rightarrow> (w2, map (\<lambda>(c, n). SlotCalled c n) cs @ os)))"
| "run_effects (BaseMouseRelease ev # es) w =
     (case run_effects es w of (w', os) \<Rightarrow> (w', BaseHandled (length (pages w)) # os))"

section \<open>Repeating a release\<close>




section \<open>Lemmas\<close>




lemma area_valid_tab:
  "area_inv a \<Longrightarrow> 0 \<le> tabAt (area_bar a) (pos ev) \<Longrightarrow> validIndex (area_widget a) (tabAt (area_bar a) (pos ev))"
  using tabAt_range [of "area_bar a" "pos ev"] by (simp add: area_inv_def validIndex_def)

lemma length_removeTab:
  "validIndex w i \<Longrightarrow> length (pages (fst (removeTab i w))) = length (pages w) - 1"
proof -
  assume v: "validIndex w i"
  then have "nat i < length (pages w)" by (auto simp: validIndex_def)
  with v show ?thesis by (simp add: removeTab_pages min_def)
qed






section \<open>Properties of runs\<close>

text \<open>C22: the order of a middle click's effects in a tab area: the close
  slot is called first, with the index of the tab under the cursor, and
  removes its page; only then does \<open>QTabBar::mouseReleaseEvent\<close> handle the
  release, on a tab bar that already has one tab fewer.\<close>

theorem area_mid_close_order:
  assumes r: "area_reachable a" and b: "button ev = MidButton"
    and i: "tabAt (area_bar a) (pos ev) = i" and nn: "0 \<le> i"
  shows "\<exists>os. run_effects (mouseReleaseEvent (area_bar a) sel ev) (area_widget a) =
      (fst (removeTab i (area_widget a)),
       SlotCalled (ui_tabCloseRequested i) (length (pages (area_widget a))) # os) \<and>
    last os = BaseHandled (length (pages (area_widget a)) - 1)"
proof -
  from r have inv: "area_inv a" by (rule area_reachable_inv)
  with i nn have v: "validIndex (area_widget a) i" using area_valid_tab by blast
  from b i nn have e: "mouseReleaseEvent (area_bar a) sel ev = [Emit (tabCloseRequested i), BaseMouseRelease ev]"
    by (simp add: mouseReleaseEvent_def Let_def)
  let ?r = "removeTab i (area_widget a)"
  have "run_effects (mouseReleaseEvent (area_bar a) sel ev) (area_widget a) =
      (fst ?r, SlotCalled (ui_tabCloseRequested i) (length (pages (area_widget a))) #
         map (\<lambda>(c, n). SlotCalled c n) (announce (fst ?r) (snd ?r)) @ [BaseHandled (length (pages (fst ?r)))])"
    by (simp add: e slot_effect_def split: prod.split)
  with length_removeTab [OF v] show ?thesis by auto
qed

theorem area_mid_close_order_witness:
  "area_reachable demo_area2 \<and> button (demo_click MidButton 150) = MidButton \<and>
   tabAt (area_bar demo_area2) (pos (demo_click MidButton 150)) = 1 \<and> (0::int) \<le> 1 \<and>
   (\<exists>os. run_effects (mouseReleaseEvent (area_bar demo_area2) None (demo_click MidButton 150))
      (area_widget demo_area2) =
        (fst (removeTab 1 (area_widget demo_area2)),
         SlotCalled (ui_tabCloseRequested 1) (length (pages (area_widget demo_area2))) # os) \<and>
      last os = BaseHandled (length (pages (area_widget demo_area2)) - 1))"
proof -
  have i: "tabAt (area_bar demo_area2) (pos (demo_click MidButton 150)) = 1"
    by (simp add: tabAt_def rect_contains_def)
  have b: "button (demo_click MidButton 150) = MidButton" by simp
  have nn: "(0::int) \<le> 1" by simp
  show ?thesis
    using area_mid_close_order [OF demo_area2_reachable b i nn, of None] demo_area2_reachable b i nn
    by blast
qed



end
