(* ===== verification/Spec2Isabelle.thy ===== *)
theory Spec2Isabelle
  imports TabArea_Runs
begin

text \<open>
  \<^bold>\<open>Robomongo's work-area tab bar.\<close>
  The repository excerpt is \<^verbatim>\<open>src/src/gui/widgets/workarea/WorkAreaTabBar.cpp\<close>
  (the class \<open>WorkAreaTabBar\<close>, a \<open>QTabBar\<close> with a context menu) and the
  header \<^verbatim>\<open>WorkAreaTabWidget.h\<close> of the tab widget that owns it. The tab bar
  builds its menu and style sheet in its constructor; on a mouse release it
  either asks for the tab under the cursor to be closed (middle button) or
  shows the menu and turns the picked action into one of seven signals (right
  button), each carrying a tab index; the tab widget and the rest of the
  application act on those signals and change the tabs.

  \<^bold>\<open>Library.\<close>
  \<^item> \<open>TabBar_Prelude\<close>: the model's types (\<open>ptr\<close>, \<open>coord\<close>), the rule
    collection \<open>heap_simps\<close> that evaluates the object store, and generic
    lemmas on the state monad and on \<open>those\<close>.
  \<^item> \<open>Qt_Model\<close>: the toolkit calls the code makes, modelled from Qt's
    documentation (library code, so not in the map): \<open>QRect::contains\<close>,
    \<open>QTabBar::tabAt\<close> over the tab rectangles (the current tab wins where
    tabs overlap), mouse buttons and events, the object store with
    \<open>new QMenu\<close>, \<open>new QAction\<close>, \<open>setShortcut\<close>, \<open>addAction\<close> and
    \<open>addSeparator\<close> (a new separator action) as state-monad actions, and the
    menu's modal \<open>exec\<close> as an input constrained by \<open>menu_exec_ok\<close> (null, or
    an entry of the menu that is not a separator). Its lemmas give the
    interface the tab bar relies on: \<open>tabAt_range\<close> (\<open>-1\<close> or an existing
    tab) and \<open>tabAt_hit\<close>, the store's evaluation rules and
    the decoding of \<open>Qt::CTRL + Qt::Key_T\<close> as a \<open>32 word\<close>.
  \<^item> \<open>StyleSheet\<close>: \<open>buildStyleSheet\<close> (lines 73--119) as the concatenated
    string, which the constructor stores in the tab bar.
  \<^item> \<open>TabBar_Ctor\<close>: the record \<open>WorkAreaTabBar\<close> (extending \<open>QTabBar\<close>,
    as the class derives from it) and the constructor \<open>WorkAreaTabBar_ctor\<close>
    (lines 13--37), every allocation and menu call in the source's order,
    threading the store in the state monad; the invariant \<open>tabbar_wf\<close>.
  \<^item> \<open>TabBar_Events\<close>: the signals, \<open>emitSignalForContextMenuAction\<close>
    (lines 128--144) and \<open>mouseReleaseEvent\<close> (lines 43--68), whose result
    is the ordered list of effects (menu shown, signal emitted, event passed
    to \<open>QTabBar::mouseReleaseEvent\<close>); an abstract specification of the
    seven shell commands (\<open>command_action\<close>, \<open>command_signal\<close>).
  \<^item> \<open>TabBar_Session\<close>: the tab bar's lifetime as an inductive step relation:
    user releases interleaved with arbitrary changes of the tabs by their
    owner, from the constructor's result; its invariant by rule induction
    (the tab bar stays well formed, its menu never lists Pin), which the
    properties of this theory use.
  \<^item> \<open>Qt_TabWidget\<close>: the tab list of \<open>QTabWidget\<close> (pages and current
    index) with Qt's \<open>insertTab\<close>, \<open>removeTab\<close> (default \<open>SelectRightTab\<close>)
    and \<open>setCurrentIndex\<close>, each returning the \<open>currentChanged\<close> value it
    emits; library code, not in the map. Its lemmas: every operation keeps
    the current index valid, what \<open>removeTab\<close> does to the pages and that it
    keeps the current page when another one goes.
  \<^item> \<open>TabArea\<close>: \<open>WorkAreaTabWidget\<close>. The members its header declares
    (\<^verbatim>\<open>WorkAreaTabWidget.h\<close> lines 16--30) are the datatype
    \<open>WorkAreaTabWidget_member\<close>. The slot bodies and the \<open>connect\<close> calls are
    in a file outside the excerpt, so \<open>connected_slot\<close> and \<open>slot_effect\<close>
    are modelled from the slot names and the spec (close removes the page).
    A tab area (\<open>tab_area\<close>, \<open>area_step\<close>, \<open>area_reachable\<close>) is the bar
    inside the widget: user releases whose signals reach the slots
    synchronously, interleaved with any change of the tab list by the
    application, the bar following the widget's pages and current index.
  \<^item> \<open>TabArea_Runs\<close>: the order of a release's effects
    (\<open>run_effects\<close> performs the handler's effect list, calling each slot when
    its signal is emitted, and records what each effect observes) and a user
    repeating one release until it changes no page (\<open>repeat_release\<close>, a
    \<open>partial_function (option)\<close> loop whose variant is the number of pages,
    with the tab geometry after each change given by a layout function).
  \<^item> This theory: properties that span the constructor, the handler and the
    toolkit's menu over a tab bar's lifetime.

  \<^bold>\<open>What is shown.\<close>
  The handler's result on every branch of the source (C1--C4, C9, C10), that
  every emitted signal names the tab under the cursor (C5), that the dispatch
  refines the command specification when the action pointers differ (C8) and
  is a first-match lookup in the table of commands in the source's order
  (C20), that one release emits at most one signal (C11); that for a tab bar
  the constructor built, whatever the user picks, the Pin signal is never
  emitted and every pick emits the signal of a command (C6, C7); the
  constructor's menu, invariant, Pin entry, frame, ownership, mnemonics and
  shortcut (C12--C18). Inside the tab widget: a middle click removes exactly
  the page under the cursor and keeps the user's page otherwise (C19), the
  user can always close the tab under the cursor through the menu (C21), the
  close slot runs before \<open>QTabBar::mouseReleaseEvent\<close>, which then sees one
  tab fewer (C22), and repeating a release always ends, through reachable
  states, with no tab under the cursor when it is a middle click (C23).

  \<^bold>\<open>Choices.\<close>
  C++ \<open>int\<close> indices are \<open>int\<close> (no arithmetic on them can overflow);
  pointers are addresses of the store, compared for equality as the source
  does. The excerpt has no loop: Qt's scan in \<open>tabAt\<close>
  (\<open>tabAt_from\<close>) and the delivery of emitted signals (\<open>deliver\<close>) are
  structural recursions. The only loop of the model is the user's
  \<open>repeat_release\<close>, written in the option monad so that a run that never
  ends would be \<open>None\<close>; C23 proves it returns \<open>Some\<close>, by induction on
  the number of pages, with no fuel bound.
  A release is one step: the handler reads \<open>tabAt\<close> (line 54) and emits
  (line 64) in the same state, although \<open>_menu->exec()\<close> (line 59) runs a
  nested event loop in which the application could change the tabs; the
  model leaves such changes out, so the index a right-click request carries
  is the one read before the menu opened.
  Signals reach slots synchronously (Qt's direct connection inside
  one thread), so a slot runs before the handler passes the event on.
  Tab geometry after a change of the tab list is any list of rectangles,
  one per page: the layout computed by Qt's style is not modelled, and no
  property depends on more than which rectangle holds the cursor.

  \<^bold>\<open>Not modelled.\<close>
  The menu's popup position (\<open>QCursor::pos()\<close>) and painting: they do not
  change which signal is emitted. \<open>WorkAreaTabWidget\<close>'s constructor and
  \<open>keyPressEvent\<close>: only their declarations are in the excerpt, so they
  appear as members of the interface with no behaviour; likewise what
  \<open>ui_newTabRequested\<close> and \<open>ui_currentChanged\<close> do, and the receivers of
  the five signals the widget has no slot for. Changes of the tab list during
  the menu's nested event loop. The style sheet is a constant: it is
  modelled exactly, but no property is stated about it, since any would be
  an evaluation of that constant.

  \<^bold>\<open>Plan.\<close>
  Done: the four operations of the tab bar (constructor, style sheet,
  dispatch, release handler), the session machine, the tab widget's
  interface and the tab area that composes bar, widget and Qt's tab list.
  What remains of the excerpt are declarations whose bodies are not in it
  (the tab widget's constructor, \<open>keyPressEvent\<close>, \<open>ui_newTabRequested\<close>,
  \<open>ui_currentChanged\<close>) and the receivers of the five requests the widget has
  no slot for; they can be modelled once that source is available. The
  sheet's \<open>margin-right: -2px\<close> changes how a tab is painted, not the
  rectangle \<open>tabAt\<close> reads, so no tab layout is derived from the sheet.
\<close>

section \<open>Properties across components\<close>

lemma reachable_selectable_command:
  "session_reachable s \<Longrightarrow> selectable (store s) (menu (bar s)) a \<Longrightarrow>
     \<exists>c. c \<noteq> PinShell \<and> a = command_action (bar s) c"
proof -
  assume r: "session_reachable s" and sel: "selectable (store s) (menu (bar s)) a"
  from r have "session_inv s" by (rule session_reachable_inv)
  with sel show ?thesis by (auto simp: session_inv_def intro: selectable_command)
qed

lemma demo_menu_ok:
  "selectable (store demo_laid_out) (menu (bar demo_laid_out)) 3"
  by (simp add: ctor_simps selectable_def menu_actions_def Let_def)

lemma demo_laid_out_tabAt: "tabAt (bar demo_laid_out) (pos (demo_click RightButton 150)) = 1"
  by (simp add: ctor_simps tabAt_def rect_contains_def)

text \<open>C6: for a tab bar built by the constructor, at any point of its life and
  for any answer the toolkit's menu can give, a mouse release never emits
  \<open>pinTabRequested\<close>: the Pin Shell action is never put in the menu.\<close>

theorem reachable_never_pins:
  "session_reachable s \<Longrightarrow> menu_exec_ok (store s) (menu (bar s)) sel \<Longrightarrow>
     \<not> list_ex is_pin (emitted (mouseReleaseEvent (bar s) sel ev))"
proof -
  assume r: "session_reachable s" and ok: "menu_exec_ok (store s) (menu (bar s)) sel"
  from r have "session_inv s" by (rule session_reachable_inv)
  with ok have "\<forall>sg \<in> set (emitted (mouseReleaseEvent (bar s) sel ev)).
      log_entry_ok (sg, tabCount (bar s))"
    by (blast intro: release_emitted_ok)
  then show ?thesis by (auto simp: list_ex_iff log_entry_ok_def)
qed

theorem reachable_never_pins_witness:
  "session_reachable demo_laid_out \<and> menu_exec_ok (store demo_laid_out) (menu (bar demo_laid_out)) (Some 3) \<and>
   \<not> list_ex is_pin (emitted (mouseReleaseEvent (bar demo_laid_out) (Some 3) (demo_click RightButton 150)))"
proof -
  have ok: "menu_exec_ok (store demo_laid_out) (menu (bar demo_laid_out)) (Some 3)"
    using demo_menu_ok by (simp add: menu_exec_ok_def)
  show ?thesis
    using reachable_never_pins [OF demo_laid_out_reachable ok] demo_laid_out_reachable ok by blast
qed

text \<open>C7: for a tab bar built by the constructor, at any point of its life,
  a right-button release over a tab followed by a pick of any entry of the
  menu emits exactly the signal of one shell command other than Pin, for the
  tab under the cursor, between showing the menu and passing the event on.\<close>

theorem reachable_menu_choice:
  "session_reachable s \<Longrightarrow> button ev = RightButton \<Longrightarrow> 0 \<le> tabAt (bar s) (pos ev) \<Longrightarrow>
     selectable (store s) (menu (bar s)) a \<Longrightarrow>
     \<exists>c. c \<noteq> PinShell \<and>
       mouseReleaseEvent (bar s) (Some a) ev =
         [ExecMenu (menu (bar s)), Emit (command_signal c (tabAt (bar s) (pos ev))), BaseMouseRelease ev]"
proof -
  assume r: "session_reachable s" and b: "button ev = RightButton"
    and nn: "0 \<le> tabAt (bar s) (pos ev)" and sel: "selectable (store s) (menu (bar s)) a"
  from r sel obtain c where c: "c \<noteq> PinShell" and ac: "a = command_action (bar s) c"
    by (blast dest: reachable_selectable_command)
  from r have "distinct (action_ptrs (bar s))"
    using session_reachable_inv by (simp add: session_inv_def tabbar_wf_def)
  with b nn ac have "mouseReleaseEvent (bar s) (Some a) ev =
      [ExecMenu (menu (bar s)), Emit (command_signal c (tabAt (bar s) (pos ev))), BaseMouseRelease ev]"
    by (simp add: mouseReleaseEvent_def Let_def emitSignal_command)
  with c show ?thesis by blast
qed

theorem reachable_menu_choice_witness:
  "session_reachable demo_laid_out \<and> button (demo_click RightButton 150) = RightButton \<and>
   0 \<le> tabAt (bar demo_laid_out) (pos (demo_click RightButton 150)) \<and>
   selectable (store demo_laid_out) (menu (bar demo_laid_out)) 3 \<and>
   (\<exists>c. c \<noteq> PinShell \<and>
      mouseReleaseEvent (bar demo_laid_out) (Some 3) (demo_click RightButton 150) =
        [ExecMenu (menu (bar demo_laid_out)), Emit (command_signal c 1),
         BaseMouseRelease (demo_click RightButton 150)])"
proof -
  have b: "button (demo_click RightButton 150) = RightButton" by simp
  have nn: "0 \<le> tabAt (bar demo_laid_out) (pos (demo_click RightButton 150))"
    by (simp only: demo_laid_out_tabAt)
  show ?thesis
    using reachable_menu_choice [OF demo_laid_out_reachable b nn demo_menu_ok]
      demo_laid_out_reachable b nn demo_menu_ok demo_laid_out_tabAt
    by simp
qed

end
